theory Spec2Isabelle
  imports Main "HOL-Library.Sublist"
begin

section \<open>JavaScript values\<close>

text \<open>
  The program is JavaScript. Its values are embedded as the datatype \<open>jsval\<close>:
  \<open>undefined\<close>, \<open>null\<close>, booleans, numbers, strings and plain objects (a list of
  properties in insertion order, which is the order of \<open>Object.entries\<close>).
  Numbers are the integers: pixel counts, seconds and status codes. Fractions and NaN are
  outside the embedding. A string is a list of code units, each an Isabelle \<open>char\<close>.
\<close>

datatype jsval =
    Undefined
  | Null
  | Bool bool
  | Num int
  | Str string
  | Obj "(string \<times> jsval) list"

type_synonym obj = "(string \<times> jsval) list"

text \<open>ToBoolean: what \<open>if (v)\<close>, \<open>!v\<close> and \<open>v || w\<close> test.\<close>

fun truthy :: "jsval \<Rightarrow> bool" where
  "truthy Undefined = False"
| "truthy Null = False"
| "truthy (Bool b) = b"
| "truthy (Num n) = (n \<noteq> 0)"
| "truthy (Str s) = (s \<noteq> [])"
| "truthy (Obj ps) = True"

text \<open>\<open>a || b\<close>\<close>

definition js_or :: "jsval \<Rightarrow> jsval \<Rightarrow> jsval" where
  "js_or a b = (if truthy a then a else b)"

text \<open>Decimal digits of a natural number, most significant first.\<close>

fun digits_of_nat :: "nat \<Rightarrow> string" where
  "digits_of_nat n =
     (if n < 10 then [char_of (48 + n)]
      else digits_of_nat (n div 10) @ [char_of (48 + n mod 10)])"

declare digits_of_nat.simps [simp del]

definition string_of_int :: "int \<Rightarrow> string" where
  "string_of_int i =
     (if i < 0 then CHR ''-'' # digits_of_nat (nat (- i)) else digits_of_nat (nat i))"

text \<open>ToString: \<open>String(v)\<close>, string concatenation and template literals.\<close>

fun ToString :: "jsval \<Rightarrow> string" where
  "ToString Undefined = ''undefined''"
| "ToString Null = ''null''"
| "ToString (Bool b) = (if b then ''true'' else ''false'')"
| "ToString (Num n) = string_of_int n"
| "ToString (Str s) = s"
| "ToString (Obj ps) = ''[object Object]''"

text \<open>
  ToNumber on the values whose number is an integer. \<open>None\<close> stands for every other
  outcome (NaN, or the number a string denotes), which the embedding does not compute.
\<close>

fun ToNumber :: "jsval \<Rightarrow> int option" where
  "ToNumber (Num n) = Some n"
| "ToNumber Null = Some 0"
| "ToNumber (Bool b) = Some (if b then 1 else 0)"
| "ToNumber Undefined = None"
| "ToNumber (Str s) = None"
| "ToNumber (Obj ps) = None"

text \<open>Reading a property: \<open>o.k\<close> is \<open>undefined\<close> when the object has no such key.\<close>

definition getp :: "obj \<Rightarrow> string \<Rightarrow> jsval" where
  "getp ob k = (case map_of ob k of Some v \<Rightarrow> v | None \<Rightarrow> Undefined)"

text \<open>
  Writing a property: \<open>o.k = v\<close>, and \<open>{...o, k: v}\<close>. An existing key keeps its
  position, a new key goes to the end.
\<close>

fun setp :: "obj \<Rightarrow> string \<Rightarrow> jsval \<Rightarrow> obj" where
  "setp [] k v = [(k, v)]"
| "setp ((k', v') # ps) k v =
     (if k' = k then (k, v) # ps else (k', v') # setp ps k v)"

definition has_key :: "obj \<Rightarrow> string \<Rightarrow> bool" where
  "has_key ob k = (k \<in> set (map fst ob))"

text \<open>\<open>s.replace(/c/g, r)\<close> for a single character \<open>c\<close>.\<close>

definition replace_all :: "char \<Rightarrow> string \<Rightarrow> string \<Rightarrow> string" where
  "replace_all c r s = concat (map (\<lambda>x. if x = c then r else [x]) s)"

text \<open>\<open>xs.join(sep)\<close>\<close>

fun join :: "string \<Rightarrow> string list \<Rightarrow> string" where
  "join sep [] = []"
| "join sep [x] = x"
| "join sep (x # y # ys) = x @ sep @ join sep (y # ys)"

subsection \<open>parseInt(string, 10)\<close>

text \<open>
  The white space that \<open>parseInt\<close> skips, among the code units below 256: tab, line
  feed, vertical tab, form feed, carriage return, space and no-break space.
\<close>

definition StrWhiteSpaceChar :: "char \<Rightarrow> bool" where
  "StrWhiteSpaceChar c =
     (c \<in> set [CHR 0x09, CHR 0x0A, CHR 0x0B, CHR 0x0C, CHR 0x0D, CHR 0x20, CHR 0xA0])"

definition isDigit :: "char \<Rightarrow> bool" where
  "isDigit c = (48 \<le> (of_char c :: nat) \<and> (of_char c :: nat) \<le> 57)"

definition digitsValue :: "string \<Rightarrow> nat" where
  "digitsValue z = foldl (\<lambda>a c. 10 * a + ((of_char c :: nat) - 48)) 0 z"

text \<open>
  \<open>parseInt\<close> skips leading white space, reads one optional sign, then the longest run of
  decimal digits, and ignores whatever follows. Without a digit the result is NaN, here
  \<open>None\<close>. The number is kept exact: JavaScript rounds a long digit string to a double,
  and rounding is monotone, so the comparisons with 1 and 2048 below are the same.
\<close>

definition parseInt :: "string \<Rightarrow> int option" where
  "parseInt inputString =
     (let S = dropWhile StrWhiteSpaceChar inputString;
          sign = (case S of [] \<Rightarrow> 1 | c # r \<Rightarrow> if c = CHR ''-'' then - 1 else (1 :: int));
          S' = (case S of [] \<Rightarrow> S | c # r \<Rightarrow> if c = CHR ''-'' \<or> c = CHR ''+'' then r else S);
          Z = takeWhile isDigit S'
      in if Z = [] then None else Some (sign * int (digitsValue Z)))"

section \<open>Constants (utils/constants.mjs)\<close>

definition VALID_FORMATS :: "string list" where
  "VALID_FORMATS = [''json'', ''xml'']"

definition DEFAULT_FORMAT :: string where
  "DEFAULT_FORMAT = ''json''"

definition DEFAULT_CACHE_AGE :: int where
  "DEFAULT_CACHE_AGE = 3600"

definition MIN_DIMENSION :: int where
  "MIN_DIMENSION = 1"

definition MAX_WIDTH_LIMIT :: int where
  "MAX_WIDTH_LIMIT = 2048"

definition MAX_HEIGHT_LIMIT :: int where
  "MAX_HEIGHT_LIMIT = 2048"

definition MAX_URL_LENGTH :: nat where
  "MAX_URL_LENGTH = 2048"

definition ALLOWED_PROTOCOLS :: "string list" where
  "ALLOWED_PROTOCOLS = [''http:'', ''https:'']"

definition IFRAME_SANDBOX_ATTRIBUTES :: string where
  "IFRAME_SANDBOX_ATTRIBUTES = ''allow-scripts allow-same-origin allow-presentation''"

definition IFRAME_ALLOW_ATTRIBUTES :: string where
  "IFRAME_ALLOW_ATTRIBUTES =
     ''accelerometer; autoplay; clipboard-write; encrypted-media; gyroscope; picture-in-picture''"

text \<open>\<open>DEFAULT_CACHE_AGES\<close>: the per-type table of the constants module.\<close>

definition DEFAULT_CACHE_AGES :: "(string \<times> int) list" where
  "DEFAULT_CACHE_AGES =
     [(''photo'', 7200), (''video'', 3600), (''rich'', 1800), (''link'', 3600)]"

text \<open>\<open>ERROR_CODES\<close>: each constant is its own name as a string.\<close>

abbreviation "MISSING_URL \<equiv> ''MISSING_URL''"
abbreviation "INVALID_URL \<equiv> ''INVALID_URL''"
abbreviation "MALFORMED_URL \<equiv> ''MALFORMED_URL''"
abbreviation "UNAUTHORIZED_DOMAIN \<equiv> ''UNAUTHORIZED_DOMAIN''"
abbreviation "INVALID_FORMAT \<equiv> ''INVALID_FORMAT''"
abbreviation "INVALID_MAXWIDTH \<equiv> ''INVALID_MAXWIDTH''"
abbreviation "INVALID_MAXHEIGHT \<equiv> ''INVALID_MAXHEIGHT''"
abbreviation "CONTENT_NOT_FOUND \<equiv> ''CONTENT_NOT_FOUND''"
abbreviation "BACKEND_ERROR \<equiv> ''BACKEND_ERROR''"
abbreviation "MISSING_PROVIDER_DOMAIN \<equiv> ''MISSING_PROVIDER_DOMAIN''"
abbreviation "MISSING_REQUIRED_FIELD \<equiv> ''MISSING_REQUIRED_FIELD''"
abbreviation "INTERNAL_ERROR \<equiv> ''INTERNAL_ERROR''"

definition ERROR_MESSAGES_table :: "(string \<times> string) list" where
  "ERROR_MESSAGES_table =
     [(MISSING_URL, ''URL parameter is required''),
      (INVALID_URL, ''Invalid URL format''),
      (MALFORMED_URL, ''Invalid URL''),
      (UNAUTHORIZED_DOMAIN, ''Provider Domain Not Found''),
      (INVALID_FORMAT, ''Format not implemented''),
      (INVALID_MAXWIDTH, ''Maxwidth must be a number between 1 and 2048''),
      (INVALID_MAXHEIGHT, ''Maxheight must be a number between 1 and 2048''),
      (CONTENT_NOT_FOUND, ''Content not found''),
      (BACKEND_ERROR, ''Backend service error''),
      (MISSING_PROVIDER_DOMAIN, ''Provider domain not configured''),
      (MISSING_REQUIRED_FIELD, ''Required field missing for content type''),
      (INTERNAL_ERROR, ''Internal server error'')]"

text \<open>\<open>ERROR_MESSAGES[code]\<close>\<close>

definition ERROR_MESSAGES :: "string \<Rightarrow> jsval" where
  "ERROR_MESSAGES c =
     (case map_of ERROR_MESSAGES_table c of Some m \<Rightarrow> Str m | None \<Rightarrow> Undefined)"

section \<open>Request validation (core/validator.mjs, utils/security.mjs)\<close>

text \<open>
  The query string parameters of the request: each is a string, or absent
  (\<open>undefined\<close>, here \<open>None\<close>).
\<close>

record queryParams =
  q_url :: "string option"
  q_format :: "string option"
  q_maxwidth :: "string option"
  q_maxheight :: "string option"

record validationError =
  field :: string
  message :: jsval
  code :: string

record validation =
  isValid :: bool
  errors :: "validationError list"
  vformat :: string

text \<open>\<open>{}\<close>, which stands in for a null \<open>queryParams\<close>.\<close>

definition noParams :: queryParams where
  "noParams = \<lparr>q_url = None, q_format = None, q_maxwidth = None, q_maxheight = None\<rparr>"

text \<open>\<open>p || d\<close> for a string parameter that may be absent: absent and empty are falsy.\<close>

definition str_or :: "string option \<Rightarrow> string \<Rightarrow> string" where
  "str_or p d = (case p of None \<Rightarrow> d | Some s \<Rightarrow> if s = [] then d else s)"

definition createValidationError :: "string \<Rightarrow> jsval \<Rightarrow> string \<Rightarrow> validationError" where
  "createValidationError f m c = \<lparr>field = f, message = m, code = c\<rparr>"

text \<open>
  \<open>validateNumeric\<close> returns \<open>{isValid: false, error}\<close> (here \<open>Inl error\<close>) or
  \<open>{isValid: true, value}\<close> (here \<open>Inr value\<close>).
\<close>

definition validateNumeric :: "string \<Rightarrow> int \<Rightarrow> int \<Rightarrow> string + int" where
  "validateNumeric v mn mx =
     (case parseInt v of
        None \<Rightarrow> Inl ''Value must be a number''
      | Some num \<Rightarrow>
          if num < mn \<or> num > mx
          then Inl (''Value must be between '' @ string_of_int mn @ '' and '' @ string_of_int mx)
          else Inr num)"

definition validateDimension :: "string \<Rightarrow> string \<Rightarrow> string \<Rightarrow> validationError option" where
  "validateDimension v fieldName errorCode =
     (let maxLimit = (if fieldName = ''maxwidth'' then MAX_WIDTH_LIMIT else MAX_HEIGHT_LIMIT)
      in case validateNumeric v MIN_DIMENSION maxLimit of
           Inl e \<Rightarrow> Some (createValidationError fieldName (ERROR_MESSAGES errorCode) errorCode)
         | Inr n \<Rightarrow> None)"

text \<open>
  \<open>validateOembedParams\<close> pushes onto \<open>errors\<close> in four phases; the list is the
  concatenation of what each phase pushes.
\<close>

definition urlErrors :: "queryParams \<Rightarrow> validationError list" where
  "urlErrors params =
     (if str_or (q_url params) [] = []
      then [createValidationError ''url'' (ERROR_MESSAGES MISSING_URL) MISSING_URL]
      else [])"

definition formatErrors :: "queryParams \<Rightarrow> validationError list" where
  "formatErrors params =
     (if str_or (q_format params) DEFAULT_FORMAT \<notin> set VALID_FORMATS
      then [createValidationError ''format'' (ERROR_MESSAGES INVALID_FORMAT) INVALID_FORMAT]
      else [])"

definition maxwidthErrors :: "queryParams \<Rightarrow> validationError list" where
  "maxwidthErrors params =
     (case q_maxwidth params of
        None \<Rightarrow> []
      | Some v \<Rightarrow>
          (case validateDimension v ''maxwidth'' INVALID_MAXWIDTH of
             Some e \<Rightarrow> [e]
           | None \<Rightarrow> []))"

definition maxheightErrors :: "queryParams \<Rightarrow> validationError list" where
  "maxheightErrors params =
     (case q_maxheight params of
        None \<Rightarrow> []
      | Some v \<Rightarrow>
          (case validateDimension v ''maxheight'' INVALID_MAXHEIGHT of
             Some e \<Rightarrow> [e]
           | None \<Rightarrow> []))"

definition validateOembedParams :: "queryParams option \<Rightarrow> validation" where
  "validateOembedParams queryParams =
     (let params = (case queryParams of None \<Rightarrow> noParams | Some q \<Rightarrow> q);
          errs = urlErrors params @ formatErrors params
                 @ maxwidthErrors params @ maxheightErrors params
      in \<lparr>isValid = (errs = []), errors = errs,
          vformat = str_or (q_format params) DEFAULT_FORMAT\<rparr>)"

subsection \<open>The platform's URL parser\<close>

text \<open>
  \<open>new URL(s)\<close> is the platform's parser, not code of this program. It is a parameter
  of the embedding: a function from the string to the parts of the parsed URL that the
  program reads, or \<open>None\<close> where the constructor throws. \<open>href\<close> is what
  \<open>toString()\<close> returns.
\<close>

record URL =
  protocol :: string
  host :: string
  hostname :: string
  pathname :: string
  search :: string
  hash :: string
  href :: string

type_synonym url_parser = "string \<Rightarrow> URL option"

text \<open>
  What the program can throw. \<open>Unmodelled\<close> is not an exception of the program: it
  marks the one place where the embedding stops, \<open>Math.min\<close> on an operand that
  \<open>ToNumber\<close> above does not cover.
\<close>

datatype exn = Error string | TypeError string | Unmodelled

datatype urlValidation =
    UrlInvalid string
  | UrlValid (sanitizedUrl: string) (uv_protocol: string) (uv_hostname: string)
      (uv_pathname: string)

definition validateAndSanitizeUrl :: "url_parser \<Rightarrow> jsval \<Rightarrow> urlValidation" where
  "validateAndSanitizeUrl parse u =
     (case u of
        Str s \<Rightarrow>
          if s = [] then UrlInvalid ''URL must be a non-empty string''
          else if length s > MAX_URL_LENGTH then UrlInvalid ''URL exceeds maximum length''
          else (case parse s of
                  None \<Rightarrow> UrlInvalid ''Invalid URL format''
                | Some urlObj \<Rightarrow>
                    if protocol urlObj \<notin> set ALLOWED_PROTOCOLS
                    then UrlInvalid ''Only HTTP and HTTPS protocols are allowed''
                    else UrlValid
                           (protocol urlObj @ ''//'' @ host urlObj @ pathname urlObj
                              @ search urlObj @ hash urlObj)
                           (protocol urlObj) (hostname urlObj) (pathname urlObj))
      | _ \<Rightarrow> UrlInvalid ''URL must be a non-empty string'')"

text \<open>
  The result of \<open>validateAndAuthorizeUrl\<close>: \<open>{isValid: false, error, code, details}\<close>
  or \<open>{isValid: true, urlObj, hostname, pathname}\<close>.
\<close>

datatype authorization =
    Rejected jsval string jsval
  | Authorized URL string string

fun auth_isValid :: "authorization \<Rightarrow> bool" where
  "auth_isValid (Rejected e c d) = False"
| "auth_isValid (Authorized u h p) = True"

text \<open>
  \<open>providerDomain\<close> is \<open>process.env.PROVIDER_DOMAIN\<close>; \<open>endsWith\<close> is \<open>suffix\<close>.
  The last step builds \<open>new URL(sanitizedUrl)\<close>, which throws where the parser fails.
\<close>

definition validateAndAuthorizeUrl ::
  "url_parser \<Rightarrow> string option \<Rightarrow> jsval \<Rightarrow> exn + authorization" where
  "validateAndAuthorizeUrl parse providerDomain u =
     (case validateAndSanitizeUrl parse u of
        UrlInvalid e \<Rightarrow>
          Inr (Rejected (ERROR_MESSAGES MALFORMED_URL) MALFORMED_URL (Str e))
      | UrlValid sanitized proto hn pn \<Rightarrow>
          (if str_or providerDomain [] = []
           then Inr (Rejected (ERROR_MESSAGES MISSING_PROVIDER_DOMAIN)
                       MISSING_PROVIDER_DOMAIN Undefined)
           else if \<not> suffix (str_or providerDomain []) hn
           then Inr (Rejected (ERROR_MESSAGES UNAUTHORIZED_DOMAIN) UNAUTHORIZED_DOMAIN
                       (Str (''URL hostname '' @ hn @ '' does not match provider domain ''
                             @ str_or providerDomain [])))
           else (case parse sanitized of
                   None \<Rightarrow> Inl (TypeError ''Invalid URL'')
                 | Some urlObj \<Rightarrow> Inr (Authorized urlObj hn pn))))"

subsection \<open>sanitizeParams\<close>

text \<open>
  \<open>decodeURIComponent\<close> is the platform's too: a parameter, \<open>None\<close> where it throws.
  The sanitized object holds \<open>url\<close>, \<open>maxwidth\<close> and \<open>maxheight\<close> only when the
  request has them; a key never assigned reads as \<open>undefined\<close>.
\<close>

record sanitizedParams =
  s_url :: jsval
  s_format :: string
  s_maxwidth :: jsval
  s_maxheight :: jsval

definition parsedOrNull :: "string \<Rightarrow> jsval" where
  "parsedOrNull s = (case parseInt s of None \<Rightarrow> Null | Some n \<Rightarrow> Num n)"

definition safeParseInteger :: "(string \<Rightarrow> string option) \<Rightarrow> string \<Rightarrow> jsval" where
  "safeParseInteger decode v =
     (case decode v of
        Some decoded \<Rightarrow> parsedOrNull decoded
      | None \<Rightarrow> parsedOrNull v)"

definition sanitizeParams ::
  "(string \<Rightarrow> string option) \<Rightarrow> queryParams option \<Rightarrow> sanitizedParams" where
  "sanitizeParams decode queryParams =
     (let params = (case queryParams of None \<Rightarrow> noParams | Some q \<Rightarrow> q)
      in \<lparr>s_url =
            (if str_or (q_url params) [] = [] then Undefined
             else (case decode (str_or (q_url params) []) of
                     Some d \<Rightarrow> Str d
                   | None \<Rightarrow> Str (str_or (q_url params) []))),
          s_format = str_or (q_format params) DEFAULT_FORMAT,
          s_maxwidth =
            (case q_maxwidth params of
               None \<Rightarrow> Undefined
             | Some v \<Rightarrow> safeParseInteger decode v),
          s_maxheight =
            (case q_maxheight params of
               None \<Rightarrow> Undefined
             | Some v \<Rightarrow> safeParseInteger decode v)\<rparr>)"

section \<open>Escaping (utils/helpers.mjs)\<close>

abbreviation dq :: string where
  "dq \<equiv> [CHR 0x22]"

abbreviation nl :: string where
  "nl \<equiv> [CHR 0x0A]"

text \<open>
  \<open>escapeXml\<close>: five replacements one after the other, the ampersand first. The
  characters are \<open>&\<close>, \<open><\<close>, \<open>>\<close>, the double quote (0x22) and the apostrophe
  (0x27).
\<close>

definition escapeXml :: "jsval \<Rightarrow> string" where
  "escapeXml unsafe =
     (if \<not> truthy unsafe then []
      else replace_all (CHR 0x27) ''&apos;''
             (replace_all (CHR 0x22) ''&quot;''
               (replace_all (CHR ''>'') ''&gt;''
                 (replace_all (CHR ''<'') ''&lt;''
                   (replace_all (CHR ''&'') ''&amp;'' (ToString unsafe))))))"

section \<open>JSON.stringify\<close>

text \<open>
  \<open>JSON.stringify\<close> on the values of the embedding: a property whose value is
  \<open>undefined\<close> is left out, \<open>null\<close> is written as \<open>null\<close>, a string is quoted with
  the escapes of the language standard (the backslash is 0x5C).
\<close>

definition hexDigit :: "nat \<Rightarrow> char" where
  "hexDigit n = (if n < 10 then char_of (48 + n) else char_of (87 + n))"

definition quoteJSONChar :: "char \<Rightarrow> string" where
  "quoteJSONChar c =
     (if c = CHR 0x22 then [CHR 0x5C, CHR 0x22]
      else if c = CHR 0x5C then [CHR 0x5C, CHR 0x5C]
      else if c = CHR 0x08 then [CHR 0x5C, CHR ''b'']
      else if c = CHR 0x0C then [CHR 0x5C, CHR ''f'']
      else if c = CHR 0x0A then [CHR 0x5C, CHR ''n'']
      else if c = CHR 0x0D then [CHR 0x5C, CHR ''r'']
      else if c = CHR 0x09 then [CHR 0x5C, CHR ''t'']
      else if (of_char c :: nat) < 32
      then [CHR 0x5C, CHR ''u'', CHR ''0'', CHR ''0'',
            hexDigit ((of_char c :: nat) div 16), hexDigit ((of_char c :: nat) mod 16)]
      else [c])"

definition QuoteJSONString :: "string \<Rightarrow> string" where
  "QuoteJSONString s = dq @ concat (map quoteJSONChar s) @ dq"

fun json_value :: "jsval \<Rightarrow> string"
  and json_members :: "(string \<times> jsval) list \<Rightarrow> string list" where
  "json_value Undefined = []"
| "json_value Null = ''null''"
| "json_value (Bool b) = (if b then ''true'' else ''false'')"
| "json_value (Num n) = string_of_int n"
| "json_value (Str s) = QuoteJSONString s"
| "json_value (Obj ps) = ''{'' @ join '','' (json_members ps) @ ''}''"
| "json_members [] = []"
| "json_members ((k, v) # ps) =
     (case v of
        Undefined \<Rightarrow> json_members ps
      | _ \<Rightarrow> (QuoteJSONString k @ '':'' @ json_value v) # json_members ps)"

text \<open>\<open>JSON.stringify(data)\<close> for an object \<open>data\<close>.\<close>

definition JSON_stringify :: "obj \<Rightarrow> string" where
  "JSON_stringify data = json_value (Obj data)"

text \<open>The properties that \<open>JSON.stringify\<close> writes, in order.\<close>

definition jsonEntries :: "obj \<Rightarrow> obj" where
  "jsonEntries data = filter (\<lambda>(k, v). v \<noteq> Undefined) data"

section \<open>Output formatting (core/formatter.mjs)\<close>

record http_response =
  statusCode :: int
  headers :: "(string \<times> string) list"
  body :: string

definition JSON_HEADERS :: "(string \<times> string) list" where
  "JSON_HEADERS =
     [(''Content-Type'', ''application/json''), (''Access-Control-Allow-Origin'', ''*'')]"

definition XML_HEADERS :: "(string \<times> string) list" where
  "XML_HEADERS =
     [(''Content-Type'', ''text/xml''), (''Access-Control-Allow-Origin'', ''*'')]"

definition XML_DECLARATION :: string where
  "XML_DECLARATION =
     ''<?xml version='' @ dq @ ''1.0'' @ dq @ '' encoding='' @ dq @ ''utf-8'' @ dq
       @ '' standalone='' @ dq @ ''yes'' @ dq @ ''?>''"

definition DEFAULT_MAX_AGE :: int where
  "DEFAULT_MAX_AGE = 3600"

definition cacheControl :: "obj \<Rightarrow> string \<times> string" where
  "cacheControl data =
     (''Cache-Control'',
      ''max-age='' @ ToString (js_or (getp data ''cache_age'') (Num DEFAULT_MAX_AGE)))"

definition formatJsonResponse :: "obj \<Rightarrow> http_response" where
  "formatJsonResponse data =
     \<lparr>statusCode = 200, headers = JSON_HEADERS @ [cacheControl data],
      body = JSON_stringify data\<rparr>"

text \<open>The entries that \<open>generateXmlBody\<close> keeps, and the element it writes for one.\<close>

definition xmlEntries :: "obj \<Rightarrow> obj" where
  "xmlEntries data = filter (\<lambda>(k, v). v \<noteq> Undefined \<and> v \<noteq> Null) data"

definition xmlElement :: "string \<times> jsval \<Rightarrow> string" where
  "xmlElement e =
     ''  <'' @ fst e @ ''>'' @ escapeXml (Str (ToString (snd e))) @ ''</'' @ fst e @ ''>''"

definition generateXmlBody :: "obj \<Rightarrow> string" where
  "generateXmlBody data =
     (let xmlElements = join nl (map xmlElement (xmlEntries data))
      in XML_DECLARATION @ nl @ ''<oembed>'' @ nl @ xmlElements @ nl @ ''</oembed>'')"

definition formatXmlResponse :: "obj \<Rightarrow> http_response" where
  "formatXmlResponse data =
     \<lparr>statusCode = 200, headers = XML_HEADERS @ [cacheControl data],
      body = generateXmlBody data\<rparr>"

definition formatResponse :: "obj \<Rightarrow> string \<Rightarrow> http_response" where
  "formatResponse data fmt =
     (if fmt = ''xml'' then formatXmlResponse data else formatJsonResponse data)"

text \<open>\<open>errorData\<close> is \<open>{error: {...}}\<close>; the record holds the inner object.\<close>

record errorData =
  error :: obj

definition getErrorCodeFromStatus :: "int \<Rightarrow> string" where
  "getErrorCodeFromStatus st =
     (case map_of
             [(400, ''BAD_REQUEST''), (401, ''UNAUTHORIZED''), (404, ''NOT_FOUND''),
              (501, ''NOT_IMPLEMENTED''), (500, ''INTERNAL_SERVER_ERROR'')] st of
        Some c \<Rightarrow> c
      | None \<Rightarrow> ''UNKNOWN_ERROR'')"

definition formatJsonErrorResponse :: "int \<Rightarrow> errorData \<Rightarrow> http_response" where
  "formatJsonErrorResponse st ed =
     \<lparr>statusCode = st, headers = JSON_HEADERS,
      body = JSON_stringify [(''error'', Obj (error ed))]\<rparr>"

definition formatXmlErrorResponse :: "int \<Rightarrow> errorData \<Rightarrow> http_response" where
  "formatXmlErrorResponse st ed =
     \<lparr>statusCode = st, headers = XML_HEADERS,
      body =
        XML_DECLARATION @ nl @ ''<oembed>'' @ nl @ ''  <error>'' @ nl
        @ ''    <code>'' @ escapeXml (getp (error ed) ''code'') @ ''</code>'' @ nl
        @ ''    <message>'' @ escapeXml (getp (error ed) ''message'') @ ''</message>'' @ nl
        @ ''    <timestamp>'' @ escapeXml (getp (error ed) ''timestamp'') @ ''</timestamp>''
        @ nl
        @ ''    <requestId>'' @ escapeXml (getp (error ed) ''requestId'') @ ''</requestId>''
        @ nl @ ''    ''
        @ (if truthy (getp (error ed) ''details'')
           then ''<details>'' @ escapeXml (getp (error ed) ''details'') @ ''</details>''
           else [])
        @ nl @ ''  </error>'' @ nl @ ''</oembed>''\<rparr>"

text \<open>
  \<open>formatErrorResponse\<close> reads the clock and a random number for \<open>timestamp\<close> and
  \<open>requestId\<close>; here both strings are arguments. \<open>code\<close> and \<open>details\<close> default to
  \<open>null\<close>.
\<close>

definition buildErrorData ::
  "string \<Rightarrow> string \<Rightarrow> int \<Rightarrow> jsval \<Rightarrow> jsval \<Rightarrow> jsval \<Rightarrow> errorData" where
  "buildErrorData ts rid st msg c details =
     \<lparr>error =
        [(''code'', js_or c (Str (getErrorCodeFromStatus st))),
         (''message'', msg),
         (''timestamp'', Str ts),
         (''requestId'', Str rid)]
        @ (if truthy details then [(''details'', details)] else [])\<rparr>"

definition formatErrorResponse ::
  "string \<Rightarrow> string \<Rightarrow> int \<Rightarrow> jsval \<Rightarrow> string \<Rightarrow> jsval \<Rightarrow> jsval \<Rightarrow> http_response" where
  "formatErrorResponse ts rid st msg fmt c details =
     (let ed = buildErrorData ts rid st msg c details
      in if fmt = ''xml'' then formatXmlErrorResponse st ed
         else formatJsonErrorResponse st ed)"

section \<open>HTML generation (oembed/html-generator.mjs)\<close>

definition VIDEO_NOT_AVAILABLE :: string where
  "VIDEO_NOT_AVAILABLE =
     ''<div class='' @ dq @ ''video-error'' @ dq @ ''>Video content not available</div>''"

definition sanitizeUrl :: "url_parser \<Rightarrow> jsval \<Rightarrow> string" where
  "sanitizeUrl parse u =
     (if \<not> truthy u then []
      else (case parse (ToString u) of
              None \<Rightarrow> []
            | Some urlObj \<Rightarrow>
                if protocol urlObj \<notin> set [''http:'', ''https:''] then []
                else href urlObj))"

definition sanitizeHtmlContent :: "jsval \<Rightarrow> string" where
  "sanitizeHtmlContent content =
     (if \<not> truthy content then []
      else replace_all (CHR ''/'') ''&#x2F;''
             (replace_all (CHR 0x27) ''&#x27;''
               (replace_all (CHR 0x22) ''&quot;''
                 (replace_all (CHR ''>'') ''&gt;''
                   (replace_all (CHR ''<'') ''&lt;''
                     (replace_all (CHR ''&'') ''&amp;'' (ToString content)))))))"

definition generateVideoHtml :: "url_parser \<Rightarrow> obj \<Rightarrow> jsval \<Rightarrow> jsval \<Rightarrow> string" where
  "generateVideoHtml parse metadata width height =
     (let embedUrl = js_or (js_or (getp metadata ''embedUrl'') (getp metadata ''url'')) (Str []);
          safeWidth = js_or (js_or width (getp metadata ''width'')) (Num 640);
          safeHeight = js_or (js_or height (getp metadata ''height'')) (Num 360)
      in if \<not> truthy embedUrl then VIDEO_NOT_AVAILABLE
         else (let sanitizedUrl = sanitizeUrl parse embedUrl
               in if sanitizedUrl = [] then VIDEO_NOT_AVAILABLE
                  else ''<iframe src='' @ dq @ sanitizedUrl @ dq
                       @ '' width='' @ dq @ ToString safeWidth @ dq
                       @ '' height='' @ dq @ ToString safeHeight @ dq
                       @ '' frameborder='' @ dq @ ''0'' @ dq
                       @ '' allowfullscreen allow='' @ dq @ IFRAME_ALLOW_ATTRIBUTES @ dq
                       @ '' sandbox='' @ dq @ IFRAME_SANDBOX_ATTRIBUTES @ dq
                       @ ''></iframe>''))"

definition generateRichHtml :: "obj \<Rightarrow> jsval \<Rightarrow> jsval \<Rightarrow> jsval" where
  "generateRichHtml metadata width height =
     (let safeWidth = js_or (js_or width (getp metadata ''width'')) (Num 500);
          safeHeight = js_or (js_or height (getp metadata ''height'')) (Num 300)
      in if truthy (getp metadata ''html'') then getp metadata ''html''
         else (let content = js_or (getp metadata ''content'') (Str ''Rich content'')
               in Str (''<div class='' @ dq @ ''rich-content'' @ dq @ '' style='' @ dq
                  @ ''width:'' @ ToString safeWidth @ ''px;height:'' @ ToString safeHeight
                  @ ''px;border:1px solid #ddd;padding:10px;overflow:auto;'' @ dq @ ''>''
                  @ sanitizeHtmlContent content @ ''</div>'')))"

section \<open>Response construction (oembed/response-builder.mjs)\<close>

text \<open>
  \<open>Math.min(a, b)\<close>: the smaller of the two numbers. \<open>None\<close> where \<open>ToNumber\<close>
  above gives no integer for an operand.
\<close>

definition Math_min :: "jsval \<Rightarrow> jsval \<Rightarrow> jsval option" where
  "Math_min a b =
     (case (ToNumber a, ToNumber b) of
        (Some x, Some y) \<Rightarrow> Some (Num (min x y))
      | _ \<Rightarrow> None)"

definition calculateConstrainedDimension :: "jsval \<Rightarrow> jsval \<Rightarrow> jsval option" where
  "calculateConstrainedDimension originalDimension constraint =
     (if \<not> truthy originalDimension then Some (js_or constraint Null)
      else if \<not> truthy constraint then Some originalDimension
      else Math_min originalDimension constraint)"

text \<open>
  \<open>providerName\<close> and \<open>providerUrl\<close> are \<open>process.env.PROVIDER_NAME\<close> and
  \<open>process.env.PROVIDER_URL\<close>. The base response starts from
  \<open>BASE_RESPONSE_TEMPLATE\<close>.
\<close>

definition BASE_RESPONSE_TEMPLATE :: obj where
  "BASE_RESPONSE_TEMPLATE = [(''version'', Str ''1.0''), (''cache_age'', Num DEFAULT_CACHE_AGE)]"

definition buildBaseResponse :: "string option \<Rightarrow> string option \<Rightarrow> obj \<Rightarrow> obj" where
  "buildBaseResponse providerName providerUrl metadata =
     setp (setp (setp BASE_RESPONSE_TEMPLATE
       ''type'' (js_or (getp metadata ''type'') (Str ''rich'')))
       ''provider_name'' (Str (str_or providerName ''oEmbed Provider'')))
       ''provider_url'' (Str (str_or providerUrl ''https://example.com''))"

text \<open>
  \<open>addOptionalFields\<close> and \<open>addThumbnailFields\<close> mutate the response; here they
  return the updated object.
\<close>

definition set_if :: "bool \<Rightarrow> string \<Rightarrow> jsval \<Rightarrow> obj \<Rightarrow> obj" where
  "set_if c k v response = (if c then setp response k v else response)"

definition addOptionalFields :: "obj \<Rightarrow> obj \<Rightarrow> obj" where
  "addOptionalFields response metadata =
     (let r1 = set_if (truthy (getp metadata ''title'')) ''title'' (getp metadata ''title'')
                 response;
          authorName = js_or (getp metadata ''author_name'') (getp metadata ''author'');
          r2 = set_if (truthy authorName) ''author_name'' authorName r1;
          authorUrl = js_or (getp metadata ''author_url'') (getp metadata ''authorUrl'');
          r3 = set_if (truthy authorUrl) ''author_url'' authorUrl r2
      in set_if (getp metadata ''cache_age'' \<noteq> Undefined) ''cache_age''
           (getp metadata ''cache_age'') r3)"

definition addThumbnailFields :: "obj \<Rightarrow> obj \<Rightarrow> obj" where
  "addThumbnailFields response metadata =
     (let thumbnailUrl = js_or (getp metadata ''thumbnail_url'') (getp metadata ''thumbnail'')
      in if truthy thumbnailUrl
         then (let r1 = setp response ''thumbnail_url'' thumbnailUrl;
                   r2 = set_if (truthy (getp metadata ''thumbnail_width'')) ''thumbnail_width''
                          (getp metadata ''thumbnail_width'') r1
               in set_if (truthy (getp metadata ''thumbnail_height'')) ''thumbnail_height''
                    (getp metadata ''thumbnail_height'') r2)
         else response)"

text \<open>\<open>calculateConstrainedDimension(original, limit) || dflt\<close>\<close>

definition dimensionOr :: "jsval \<Rightarrow> jsval \<Rightarrow> int \<Rightarrow> exn + jsval" where
  "dimensionOr originalDimension constraint dflt =
     (case calculateConstrainedDimension originalDimension constraint of
        None \<Rightarrow> Inl Unmodelled
      | Some d \<Rightarrow> Inr (js_or d (Num dflt)))"

definition createPhotoResponse :: "obj \<Rightarrow> obj \<Rightarrow> jsval \<Rightarrow> jsval \<Rightarrow> exn + obj" where
  "createPhotoResponse baseResponse metadata maxwidth maxheight =
     (if \<not> truthy (getp metadata ''url'') then Inl (Error ''Photo type requires url field'')
      else (case dimensionOr (getp metadata ''width'') maxwidth 800 of
              Inl e \<Rightarrow> Inl e
            | Inr width \<Rightarrow>
                (case dimensionOr (getp metadata ''height'') maxheight 600 of
                   Inl e \<Rightarrow> Inl e
                 | Inr height \<Rightarrow>
                     Inr (setp (setp (setp baseResponse ''url'' (getp metadata ''url''))
                            ''width'' width) ''height'' height))))"

definition createVideoResponse ::
  "url_parser \<Rightarrow> obj \<Rightarrow> obj \<Rightarrow> jsval \<Rightarrow> jsval \<Rightarrow> exn + obj" where
  "createVideoResponse parse baseResponse metadata maxwidth maxheight =
     (if \<not> truthy (getp metadata ''embedUrl'') \<and> \<not> truthy (getp metadata ''html'')
      then Inl (Error ''Video type requires embedUrl or html field'')
      else (case dimensionOr (getp metadata ''width'') maxwidth 640 of
              Inl e \<Rightarrow> Inl e
            | Inr width \<Rightarrow>
                (case dimensionOr (getp metadata ''height'') maxheight 360 of
                   Inl e \<Rightarrow> Inl e
                 | Inr height \<Rightarrow>
                     Inr (setp (setp (setp baseResponse
                            ''html'' (js_or (getp metadata ''html'')
                                        (Str (generateVideoHtml parse metadata width height))))
                            ''width'' width) ''height'' height))))"

definition createLinkResponse :: "obj \<Rightarrow> obj \<Rightarrow> obj" where
  "createLinkResponse baseResponse metadata = baseResponse"

definition createRichResponse :: "obj \<Rightarrow> obj \<Rightarrow> jsval \<Rightarrow> jsval \<Rightarrow> exn + obj" where
  "createRichResponse baseResponse metadata maxwidth maxheight =
     (case dimensionOr (getp metadata ''width'') maxwidth 500 of
        Inl e \<Rightarrow> Inl e
      | Inr width \<Rightarrow>
          (case dimensionOr (getp metadata ''height'') maxheight 300 of
             Inl e \<Rightarrow> Inl e
           | Inr height \<Rightarrow>
               Inr (setp (setp (setp (setp baseResponse ''type'' (Str ''rich''))
                      ''html'' (js_or (getp metadata ''html'')
                                  (generateRichHtml metadata width height)))
                      ''width'' width) ''height'' height)))"

definition createTypeSpecificResponse ::
  "url_parser \<Rightarrow> string option \<Rightarrow> string option \<Rightarrow> obj \<Rightarrow> jsval \<Rightarrow> jsval \<Rightarrow> exn + obj" where
  "createTypeSpecificResponse parse providerName providerUrl metadata maxwidth maxheight =
     (let baseResponse =
            addThumbnailFields
              (addOptionalFields (buildBaseResponse providerName providerUrl metadata) metadata)
              metadata;
          contentType = js_or (getp metadata ''type'') (Str ''rich'')
      in if contentType = Str ''photo''
         then createPhotoResponse baseResponse metadata maxwidth maxheight
         else if contentType = Str ''video''
         then createVideoResponse parse baseResponse metadata maxwidth maxheight
         else if contentType = Str ''link''
         then Inr (createLinkResponse baseResponse metadata)
         else if contentType = Str ''rich''
         then createRichResponse baseResponse metadata maxwidth maxheight
         else createRichResponse baseResponse (setp metadata ''type'' (Str ''rich''))
                maxwidth maxheight)"

section \<open>The handler (handlers/oembed.mjs)\<close>

definition ERROR_STATUS_MAP :: "(string \<times> int) list" where
  "ERROR_STATUS_MAP =
     [(MISSING_URL, 400), (INVALID_URL, 400), (MALFORMED_URL, 400), (INVALID_FORMAT, 501),
      (INVALID_MAXWIDTH, 400), (INVALID_MAXHEIGHT, 400), (UNAUTHORIZED_DOMAIN, 404),
      (CONTENT_NOT_FOUND, 404), (MISSING_PROVIDER_DOMAIN, 500)]"

text \<open>\<open>ERROR_STATUS_MAP[code] || HTTP_STATUS.INTERNAL_SERVER_ERROR\<close>\<close>

definition statusFor :: "string \<Rightarrow> int" where
  "statusFor c = (case map_of ERROR_STATUS_MAP c of Some st \<Rightarrow> st | None \<Rightarrow> 500)"

text \<open>
  What the handler takes from outside the program: the platform's URL parser and
  \<open>decodeURIComponent\<close>, the three environment variables, the backend's
  \<open>getContentMetadata\<close> (which returns the metadata object or throws), and the
  timestamp and request id that \<open>formatErrorResponse\<close> generates. Logging and tracing
  pass results and exceptions through and are left out.
\<close>

record runtime =
  newURL :: url_parser
  decodeURIComponent :: "string \<Rightarrow> string option"
  PROVIDER_DOMAIN :: "string option"
  PROVIDER_NAME :: "string option"
  PROVIDER_URL :: "string option"
  getContentMetadata :: "jsval \<Rightarrow> jsval \<Rightarrow> jsval \<Rightarrow> exn + obj"
  timestamp :: string
  requestId :: string

record event =
  queryStringParameters :: "queryParams option"

text \<open>The body of the handler's \<open>try\<close> block: \<open>Inl\<close> is an exception thrown in it.\<close>

definition handlerTry :: "runtime \<Rightarrow> queryParams \<Rightarrow> exn + http_response" where
  "handlerTry rt queryParams =
     (let sanitized = sanitizeParams (decodeURIComponent rt) (Some queryParams);
          validation = validateOembedParams (Some queryParams)
      in if \<not> isValid validation
         then (case errors validation of
                 [] \<Rightarrow> Inl (TypeError ''firstError is undefined'')
               | firstError # rest \<Rightarrow>
                   Inr (formatErrorResponse (timestamp rt) (requestId rt)
                          (statusFor (code firstError)) (message firstError)
                          (vformat validation) (Str (code firstError)) Null))
         else (case validateAndAuthorizeUrl (newURL rt) (PROVIDER_DOMAIN rt) (s_url sanitized) of
                 Inl e \<Rightarrow> Inl e
               | Inr (Rejected err c details) \<Rightarrow>
                   Inr (formatErrorResponse (timestamp rt) (requestId rt)
                          (statusFor c) err (s_format sanitized) (Str c) details)
               | Inr (Authorized urlObj hn pn) \<Rightarrow>
                   (case getContentMetadata rt (s_url sanitized) (s_maxwidth sanitized)
                           (s_maxheight sanitized) of
                      Inl e \<Rightarrow> Inl e
                    | Inr metadata \<Rightarrow>
                        (case createTypeSpecificResponse (newURL rt) (PROVIDER_NAME rt)
                                (PROVIDER_URL rt) metadata (s_maxwidth sanitized)
                                (s_maxheight sanitized) of
                           Inl e \<Rightarrow> Inl e
                         | Inr oembedResponse \<Rightarrow>
                             Inr (formatResponse oembedResponse (s_format sanitized))))))"

text \<open>
  The handler: the \<open>catch\<close> block turns every exception into the internal-error
  response. \<open>None\<close> only where the embedding stops (\<open>Unmodelled\<close>).
\<close>

definition handler :: "runtime \<Rightarrow> event \<Rightarrow> http_response option" where
  "handler rt ev =
     (let queryParams = (case queryStringParameters ev of None \<Rightarrow> noParams | Some q \<Rightarrow> q)
      in case handlerTry rt queryParams of
           Inr response \<Rightarrow> Some response
         | Inl Unmodelled \<Rightarrow> None
         | Inl e \<Rightarrow>
             Some (formatErrorResponse (timestamp rt) (requestId rt) 500
                     (Str ''Internal server error'') (str_or (q_format queryParams) ''json'')
                     (Str INTERNAL_ERROR) Null))"

section \<open>The specification's tables\<close>

text \<open>
  The default error code for a status, as the specification lists it, with the fallback
  for every other status.
\<close>

definition spec_code_of_status :: "int \<Rightarrow> string" where
  "spec_code_of_status st =
     (if st = 400 then ''BAD_REQUEST''
      else if st = 401 then ''UNAUTHORIZED''
      else if st = 404 then ''NOT_FOUND''
      else if st = 501 then ''NOT_IMPLEMENTED''
      else if st = 500 then ''INTERNAL_SERVER_ERROR''
      else ''UNKNOWN_ERROR'')"

text \<open>
  XML escaping as the specification words it: each of the five characters becomes its
  named entity, every other character stays.
\<close>

definition xml_entity :: "char \<Rightarrow> string" where
  "xml_entity c =
     (if c = CHR ''&'' then ''&amp;''
      else if c = CHR ''<'' then ''&lt;''
      else if c = CHR ''>'' then ''&gt;''
      else if c = CHR 0x22 then ''&quot;''
      else if c = CHR 0x27 then ''&apos;''
      else [c])"

text \<open>
  When a dimension parameter is rejected: \<open>parseInt\<close> finds no number, or the number
  is below 1 or above 2048.
\<close>

definition rejectedDimension :: "string \<Rightarrow> bool" where
  "rejectedDimension v = (case parseInt v of None \<Rightarrow> True | Some n \<Rightarrow> n < 1 \<or> n > 2048)"

section \<open>A concrete runtime for the examples\<close>

text \<open>
  The examples below run the program on the requests of its test suite. They need the
  platform's parser at a handful of URLs; \<open>exampleURL\<close> lists what \<open>new URL\<close> answers
  there (no port, query or fragment), and it throws on \<open>invalid-url\<close>, as on every
  string without a scheme.
\<close>

definition simpleURL :: "string \<Rightarrow> string \<Rightarrow> string \<Rightarrow> URL" where
  "simpleURL proto h p =
     \<lparr>protocol = proto, host = h, hostname = h, pathname = p, search = [], hash = [],
      href = proto @ ''//'' @ h @ p\<rparr>"

definition exampleURL :: url_parser where
  "exampleURL s =
     (if s = ''https://mybusiness.com/video/123''
      then Some (simpleURL ''https:'' ''mybusiness.com'' ''/video/123'')
      else if s = ''https://mybusiness.com/photo/1''
      then Some (simpleURL ''https:'' ''mybusiness.com'' ''/photo/1'')
      else if s = ''https://mybusiness.com/video/9''
      then Some (simpleURL ''https:'' ''mybusiness.com'' ''/video/9'')
      else if s = ''https://mybusiness.com/embed/123''
      then Some (simpleURL ''https:'' ''mybusiness.com'' ''/embed/123'')
      else if s = ''https://other-domain.com/video''
      then Some (simpleURL ''https:'' ''other-domain.com'' ''/video'')
      else if s = ''ftp://mybusiness.com/file''
      then Some (simpleURL ''ftp:'' ''mybusiness.com'' ''/file'')
      else None)"

text \<open>
  The backend of the examples: the video of the test suite, a photo without \<open>url\<close>
  and a video without \<open>html\<close> or \<open>embedUrl\<close>.
\<close>

definition testVideo :: obj where
  "testVideo =
     [(''type'', Str ''video''),
      (''title'', Str ''Test Video & Special Characters''),
      (''embedUrl'', Str ''https://mybusiness.com/embed/123''),
      (''thumbnail_url'', Str ''https://mybusiness.com/thumb/123.jpg''),
      (''thumbnail_width'', Num 320),
      (''thumbnail_height'', Num 180)]"

definition exampleBackend :: "jsval \<Rightarrow> jsval \<Rightarrow> jsval \<Rightarrow> exn + obj" where
  "exampleBackend u mw mh =
     (if u = Str ''https://mybusiness.com/video/123'' then Inr testVideo
      else if u = Str ''https://mybusiness.com/photo/1'' then Inr [(''type'', Str ''photo'')]
      else if u = Str ''https://mybusiness.com/video/9'' then Inr [(''type'', Str ''video'')]
      else Inl (Error ''Content not found''))"

text \<open>
  \<open>decodeURIComponent\<close> is the identity on a string without a percent sign, which is
  all the examples pass.
\<close>

definition exampleRuntime :: runtime where
  "exampleRuntime =
     \<lparr>newURL = exampleURL,
      decodeURIComponent = Some,
      PROVIDER_DOMAIN = Some ''mybusiness.com'',
      PROVIDER_NAME = Some ''Example Provider'',
      PROVIDER_URL = Some ''https://mybusiness.com'',
      getContentMetadata = exampleBackend,
      timestamp = ''2024-01-01T00:00:00.000Z'',
      requestId = ''req_1704067200000_k3j9x2m1q''\<rparr>"

definition request :: "string option \<Rightarrow> string option \<Rightarrow> string option \<Rightarrow> string option \<Rightarrow> event" where
  "request u f mw mh =
     \<lparr>queryStringParameters =
        Some \<lparr>q_url = u, q_format = f, q_maxwidth = mw, q_maxheight = mh\<rparr>\<rparr>"

section \<open>Properties of the embedding's operations\<close>

lemma getp_setp: "getp (setp ob k v) k' = (if k' = k then v else getp ob k')"
  by (induction ob) (auto simp: getp_def)

lemma keys_setp: "fst ` set (setp ob k v) = insert k (fst ` set ob)"
  by (induction ob) force+

lemma has_key_setp: "has_key (setp ob k v) k' = (k' = k \<or> has_key ob k')"
  by (simp add: has_key_def keys_setp)

lemma join_Cons: "join sep (x # xs) = x @ (if xs = [] then [] else sep @ join sep xs)"
  by (cases xs) simp_all

lemma json_obj_first:
  "v \<noteq> Undefined \<Longrightarrow>
   \<exists>rest. json_value (Obj ((k, v) # ps)) = ''{'' @ QuoteJSONString k @ '':'' @ json_value v @ rest"
  by (cases v) (simp_all add: join_Cons)

lemma statusCode_formatErrorResponse:
  "statusCode (formatErrorResponse ts rid st msg fmt c details) = st"
  by (simp add: formatErrorResponse_def formatXmlErrorResponse_def formatJsonErrorResponse_def Let_def)

lemma getErrorCodeFromStatus_spec: "getErrorCodeFromStatus st = spec_code_of_status st"
  by (simp add: getErrorCodeFromStatus_def spec_code_of_status_def)

lemma quote_code: "QuoteJSONString (spec_code_of_status st) = dq @ spec_code_of_status st @ dq"
  by (simp add: spec_code_of_status_def QuoteJSONString_def quoteJSONChar_def)

lemma escape_code: "escapeXml (Str (spec_code_of_status st)) = spec_code_of_status st"
  by (simp add: spec_code_of_status_def escapeXml_def replace_all_def)

lemma code_default:
  "getp (error (buildErrorData ts rid st msg Null details)) ''code'' = Str (spec_code_of_status st)"
  by (simp add: buildErrorData_def getp_def js_or_def getErrorCodeFromStatus_spec)

text \<open>
  Claim C10. When \<open>formatErrorResponse\<close> is called without an error code (the
  parameter keeps its default \<open>null\<close>), the code of the error body is derived from
  the status: 400, 401, 404, 501 and 500 give \<open>BAD_REQUEST\<close>, \<open>UNAUTHORIZED\<close>,
  \<open>NOT_FOUND\<close>, \<open>NOT_IMPLEMENTED\<close> and \<open>INTERNAL_SERVER_ERROR\<close>, every other status
  gives \<open>UNKNOWN_ERROR\<close>. The response keeps the status, and the body, JSON or XML,
  starts with that code.
\<close>

theorem formatErrorResponse_code_from_status:
  "getp (error (buildErrorData ts rid st msg Null details)) ''code''
     = Str (spec_code_of_status st)
   \<and> statusCode (formatErrorResponse ts rid st msg fmt Null details) = st
   \<and> prefix
        (if fmt = ''xml''
         then XML_DECLARATION @ nl @ ''<oembed>'' @ nl @ ''  <error>'' @ nl
              @ ''    <code>'' @ spec_code_of_status st @ ''</code>''
         else ''{'' @ dq @ ''error'' @ dq @ '':{'' @ dq @ ''code'' @ dq @ '':''
              @ dq @ spec_code_of_status st @ dq)
        (body (formatErrorResponse ts rid st msg fmt Null details))"
proof -
  have e: "\<exists>ps. error (buildErrorData ts rid st msg Null details)
      = (''code'', Str (spec_code_of_status st)) # ps"
    by (simp add: buildErrorData_def js_or_def getErrorCodeFromStatus_spec)
  obtain r1 where r1: "json_value (Obj (error (buildErrorData ts rid st msg Null details)))
      = ''{'' @ QuoteJSONString ''code'' @ '':'' @ json_value (Str (spec_code_of_status st)) @ r1"
    using e json_obj_first[of "Str (spec_code_of_status st)" "''code''"]
    by (metis jsval.distinct(7))
  obtain r2 where r2: "JSON_stringify [(''error'', Obj (error (buildErrorData ts rid st msg Null details)))]
      = ''{'' @ QuoteJSONString ''error'' @ '':''
        @ json_value (Obj (error (buildErrorData ts rid st msg Null details))) @ r2"
    using json_obj_first[of "Obj (error (buildErrorData ts rid st msg Null details))" "''error''" "[]"]
    unfolding JSON_stringify_def by blast
  have b: "body (formatJsonErrorResponse st (buildErrorData ts rid st msg Null details))
      = ''{'' @ QuoteJSONString ''error'' @ '':''
        @ (''{'' @ QuoteJSONString ''code'' @ '':'' @ json_value (Str (spec_code_of_status st)) @ r1)
        @ r2"
    unfolding formatJsonErrorResponse_def by (simp only: http_response.simps r2 r1)
  have json: "prefix (''{'' @ dq @ ''error'' @ dq @ '':{'' @ dq @ ''code'' @ dq @ '':''
              @ dq @ spec_code_of_status st @ dq)
        (body (formatJsonErrorResponse st (buildErrorData ts rid st msg Null details)))"
    unfolding b by (simp add: quote_code) (simp add: QuoteJSONString_def quoteJSONChar_def)
  have xml: "prefix (XML_DECLARATION @ nl @ ''<oembed>'' @ nl @ ''  <error>'' @ nl
              @ ''    <code>'' @ spec_code_of_status st @ ''</code>'')
        (body (formatXmlErrorResponse st (buildErrorData ts rid st msg Null details)))"
    using code_default[of ts rid st msg details]
    by (simp add: formatXmlErrorResponse_def escape_code)
  have f: "formatErrorResponse ts rid st msg fmt Null details
      = (if fmt = ''xml''
         then formatXmlErrorResponse st (buildErrorData ts rid st msg Null details)
         else formatJsonErrorResponse st (buildErrorData ts rid st msg Null details))"
    by (simp add: formatErrorResponse_def Let_def)
  have p: "prefix
        (if fmt = ''xml''
         then XML_DECLARATION @ nl @ ''<oembed>'' @ nl @ ''  <error>'' @ nl
              @ ''    <code>'' @ spec_code_of_status st @ ''</code>''
         else ''{'' @ dq @ ''error'' @ dq @ '':{'' @ dq @ ''code'' @ dq @ '':''
              @ dq @ spec_code_of_status st @ dq)
        (body (formatErrorResponse ts rid st msg fmt Null details))"
  proof (cases "fmt = ''xml''")
    case True
    show ?thesis unfolding f if_P[OF True] by (rule xml)
  next
    case False
    show ?thesis unfolding f if_not_P[OF False] by (rule json)
  qed
  show ?thesis
    using code_default statusCode_formatErrorResponse p by (intro conjI)
qed

section \<open>The Response Builder\<close>

lemma getp_set_if: "getp (set_if c k v ob) k' = (if c \<and> k' = k then v else getp ob k')"
  by (simp add: set_if_def getp_setp)

lemma has_key_set_if: "has_key (set_if c k v ob) k' = (c \<and> k' = k \<or> has_key ob k')"
  by (auto simp: set_if_def has_key_setp)

lemma getp_template_cache_age:
  "getp (buildBaseResponse pn pu md) ''cache_age'' = Num 3600"
  by (simp add: buildBaseResponse_def BASE_RESPONSE_TEMPLATE_def DEFAULT_CACHE_AGE_def
      getp_setp) (simp add: getp_def)

lemma getp_base_cache_age:
  "getp (addThumbnailFields (addOptionalFields (buildBaseResponse pn pu md) md) md) ''cache_age''
     = (if getp md ''cache_age'' \<noteq> Undefined then getp md ''cache_age'' else Num 3600)"
  by (simp add: addThumbnailFields_def addOptionalFields_def Let_def getp_set_if getp_setp
      getp_template_cache_age)

lemma photo_keeps:
  "createPhotoResponse b md mw mh = Inr r \<Longrightarrow> k \<notin> {''url'', ''width'', ''height''}
   \<Longrightarrow> getp r k = getp b k \<and> has_key r k = has_key b k"
  by (auto simp: createPhotoResponse_def getp_setp has_key_setp split: if_splits sum.splits)

lemma video_keeps:
  "createVideoResponse p b md mw mh = Inr r \<Longrightarrow> k \<notin> {''html'', ''width'', ''height''}
   \<Longrightarrow> getp r k = getp b k \<and> has_key r k = has_key b k"
  by (auto simp: createVideoResponse_def getp_setp has_key_setp split: if_splits sum.splits)

lemma rich_keeps:
  "createRichResponse b md mw mh = Inr r \<Longrightarrow> k \<notin> {''type'', ''html'', ''width'', ''height''}
   \<Longrightarrow> getp r k = getp b k \<and> has_key r k = has_key b k"
  by (auto simp: createRichResponse_def getp_setp has_key_setp split: if_splits sum.splits)

lemma response_keeps:
  assumes "createTypeSpecificResponse p pn pu md mw mh = Inr r"
    and "k \<notin> {''type'', ''url'', ''html'', ''width'', ''height''}"
  shows "getp r k = getp (addThumbnailFields (addOptionalFields (buildBaseResponse pn pu md) md) md) k
       \<and> has_key r k = has_key (addThumbnailFields (addOptionalFields (buildBaseResponse pn pu md) md) md) k"
  using assms
  by (auto simp: createTypeSpecificResponse_def Let_def createLinkResponse_def
      split: if_splits dest: photo_keeps video_keeps rich_keeps)


lemma has_key_template:
  "has_key (buildBaseResponse pn pu md) k
     = (k \<in> {''version'', ''cache_age'', ''type'', ''provider_name'', ''provider_url''})"
  by (auto simp: buildBaseResponse_def BASE_RESPONSE_TEMPLATE_def has_key_setp has_key_def)

lemma has_key_base_thumbnail:
  "has_key (addThumbnailFields (addOptionalFields (buildBaseResponse pn pu md) md) md)
     ''thumbnail_url''
     = truthy (js_or (getp md ''thumbnail_url'') (getp md ''thumbnail''))"
  "has_key (addThumbnailFields (addOptionalFields (buildBaseResponse pn pu md) md) md)
     ''thumbnail_width''
     = (truthy (js_or (getp md ''thumbnail_url'') (getp md ''thumbnail''))
        \<and> truthy (getp md ''thumbnail_width''))"
  "has_key (addThumbnailFields (addOptionalFields (buildBaseResponse pn pu md) md) md)
     ''thumbnail_height''
     = (truthy (js_or (getp md ''thumbnail_url'') (getp md ''thumbnail''))
        \<and> truthy (getp md ''thumbnail_height''))"
  by (simp_all add: addThumbnailFields_def addOptionalFields_def Let_def has_key_set_if
      has_key_setp has_key_template)

lemma getp_base_thumbnail_url:
  "truthy (js_or (getp md ''thumbnail_url'') (getp md ''thumbnail'')) \<Longrightarrow>
   getp (addThumbnailFields (addOptionalFields (buildBaseResponse pn pu md) md) md)
     ''thumbnail_url'' = js_or (getp md ''thumbnail_url'') (getp md ''thumbnail'')"
  by (simp add: addThumbnailFields_def Let_def getp_set_if getp_setp)

text \<open>
  Claim C3, as the code has it. Whenever the Response Builder returns a response, its
  \<open>cache_age\<close> is the metadata's \<open>cache_age\<close> when the metadata has one (any value
  but \<open>undefined\<close>), and otherwise 3600 seconds, whatever the content type: the builder
  starts from \<open>BASE_RESPONSE_TEMPLATE\<close> and never reads \<open>DEFAULT_CACHE_AGES\<close>.
\<close>

theorem cache_age_from_metadata_or_3600:
  "createTypeSpecificResponse parse providerName providerUrl metadata maxwidth maxheight = Inr r
   \<Longrightarrow> getp r ''cache_age''
       = (if getp metadata ''cache_age'' = Undefined then Num 3600
          else getp metadata ''cache_age'')"
  using response_keeps[of parse providerName providerUrl metadata maxwidth maxheight r "''cache_age''"]
  by (simp add: getp_base_cache_age)

theorem cache_age_from_metadata_or_3600_witness:
  "createTypeSpecificResponse exampleURL None None
     [(''type'', Str ''link''), (''cache_age'', Num 120)] Undefined Undefined
     = Inr [(''version'', Str ''1.0''), (''cache_age'', Num 120), (''type'', Str ''link''),
            (''provider_name'', Str ''oEmbed Provider''),
            (''provider_url'', Str ''https://example.com'')]
   \<and> getp [(''version'', Str ''1.0''), (''cache_age'', Num 120), (''type'', Str ''link''),
            (''provider_name'', Str ''oEmbed Provider''),
            (''provider_url'', Str ''https://example.com'')] ''cache_age'' = Num 120"
proof -
  have h: "createTypeSpecificResponse exampleURL None None
     [(''type'', Str ''link''), (''cache_age'', Num 120)] Undefined Undefined
     = Inr [(''version'', Str ''1.0''), (''cache_age'', Num 120), (''type'', Str ''link''),
            (''provider_name'', Str ''oEmbed Provider''),
            (''provider_url'', Str ''https://example.com'')]"
    by code_simp
  show ?thesis
    using h cache_age_from_metadata_or_3600[OF h] by (simp add: getp_def)
qed

text \<open>
  Claim C3 as stated fails: a photo whose metadata has no \<open>cache_age\<close> gets 3600, and
  the per-type table would give 7200.
\<close>

theorem photo_cache_age_counterexample:
  "createTypeSpecificResponse exampleURL None None
     [(''type'', Str ''photo''), (''url'', Str ''https://mybusiness.com/p.jpg'')]
     Undefined Undefined
     = Inr [(''version'', Str ''1.0''), (''cache_age'', Num 3600), (''type'', Str ''photo''),
            (''provider_name'', Str ''oEmbed Provider''),
            (''provider_url'', Str ''https://example.com''),
            (''url'', Str ''https://mybusiness.com/p.jpg''),
            (''width'', Num 800), (''height'', Num 600)]
   \<and> map_of DEFAULT_CACHE_AGES ''photo'' = Some 7200"
  by code_simp

text \<open>
  Claim C5. Whenever the Response Builder returns a response, the response has
  \<open>thumbnail_width\<close> or \<open>thumbnail_height\<close> only if it has \<open>thumbnail_url\<close>; it
  has \<open>thumbnail_url\<close> exactly when the metadata's \<open>thumbnail_url\<close> or, failing
  that, its alias \<open>thumbnail\<close> is truthy, and that is the value it carries.
\<close>

theorem thumbnail_all_or_none:
  "createTypeSpecificResponse parse providerName providerUrl metadata maxwidth maxheight = Inr r
   \<Longrightarrow> (has_key r ''thumbnail_width'' \<or> has_key r ''thumbnail_height''
          \<longrightarrow> has_key r ''thumbnail_url'')
       \<and> has_key r ''thumbnail_url''
           = truthy (js_or (getp metadata ''thumbnail_url'') (getp metadata ''thumbnail''))
       \<and> (has_key r ''thumbnail_url''
          \<longrightarrow> getp r ''thumbnail_url''
              = js_or (getp metadata ''thumbnail_url'') (getp metadata ''thumbnail''))"
  using response_keeps[of parse providerName providerUrl metadata maxwidth maxheight r "''thumbnail_url''"]
    response_keeps[of parse providerName providerUrl metadata maxwidth maxheight r "''thumbnail_width''"]
    response_keeps[of parse providerName providerUrl metadata maxwidth maxheight r "''thumbnail_height''"]
  by (simp add: has_key_base_thumbnail getp_base_thumbnail_url)

theorem thumbnail_all_or_none_witness:
  "createTypeSpecificResponse exampleURL None None
     [(''type'', Str ''link''), (''thumbnail'', Str ''https://mybusiness.com/t.jpg''),
      (''thumbnail_width'', Num 320)] Undefined Undefined
     = Inr [(''version'', Str ''1.0''), (''cache_age'', Num 3600), (''type'', Str ''link''),
            (''provider_name'', Str ''oEmbed Provider''),
            (''provider_url'', Str ''https://example.com''),
            (''thumbnail_url'', Str ''https://mybusiness.com/t.jpg''),
            (''thumbnail_width'', Num 320)]
   \<and> has_key [(''version'', Str ''1.0''), (''cache_age'', Num 3600), (''type'', Str ''link''),
            (''provider_name'', Str ''oEmbed Provider''),
            (''provider_url'', Str ''https://example.com''),
            (''thumbnail_url'', Str ''https://mybusiness.com/t.jpg''),
            (''thumbnail_width'', Num 320)] ''thumbnail_width''
   \<and> has_key [(''version'', Str ''1.0''), (''cache_age'', Num 3600), (''type'', Str ''link''),
            (''provider_name'', Str ''oEmbed Provider''),
            (''provider_url'', Str ''https://example.com''),
            (''thumbnail_url'', Str ''https://mybusiness.com/t.jpg''),
            (''thumbnail_width'', Num 320)] ''thumbnail_url''
   \<and> getp [(''version'', Str ''1.0''), (''cache_age'', Num 3600), (''type'', Str ''link''),
            (''provider_name'', Str ''oEmbed Provider''),
            (''provider_url'', Str ''https://example.com''),
            (''thumbnail_url'', Str ''https://mybusiness.com/t.jpg''),
            (''thumbnail_width'', Num 320)] ''thumbnail_url''
       = Str ''https://mybusiness.com/t.jpg''"
proof -
  have h: "createTypeSpecificResponse exampleURL None None
     [(''type'', Str ''link''), (''thumbnail'', Str ''https://mybusiness.com/t.jpg''),
      (''thumbnail_width'', Num 320)] Undefined Undefined
     = Inr [(''version'', Str ''1.0''), (''cache_age'', Num 3600), (''type'', Str ''link''),
            (''provider_name'', Str ''oEmbed Provider''),
            (''provider_url'', Str ''https://example.com''),
            (''thumbnail_url'', Str ''https://mybusiness.com/t.jpg''),
            (''thumbnail_width'', Num 320)]"
    by code_simp
  have w: "has_key [(''version'', Str ''1.0''), (''cache_age'', Num 3600), (''type'', Str ''link''),
            (''provider_name'', Str ''oEmbed Provider''),
            (''provider_url'', Str ''https://example.com''),
            (''thumbnail_url'', Str ''https://mybusiness.com/t.jpg''),
            (''thumbnail_width'', Num 320)] ''thumbnail_width''"
    by (simp add: has_key_def)
  show ?thesis
    using h w thumbnail_all_or_none[OF h] by (simp add: getp_def js_or_def)
qed

text \<open>
  Claim C6, as the code has it. The function tests its arguments for truthiness, so zero
  counts as absent, like \<open>null\<close> and \<open>undefined\<close>. For two non-zero numbers the result
  is their minimum, hence at most the limit. With a truthy original and a falsy limit the
  result is the original. With a falsy original the result is the limit when that is
  truthy, and \<open>null\<close> otherwise.
\<close>

theorem calculateConstrainedDimension_clamp:
  "(a \<noteq> 0 \<and> b \<noteq> 0 \<longrightarrow>
      calculateConstrainedDimension (Num a) (Num b) = Some (Num (min a b)) \<and> min a b \<le> b)
   \<and> (truthy original \<and> \<not> truthy limit \<longrightarrow>
      calculateConstrainedDimension original limit = Some original)
   \<and> (\<not> truthy original \<and> truthy limit \<longrightarrow>
      calculateConstrainedDimension original limit = Some limit)
   \<and> (\<not> truthy original \<and> \<not> truthy limit \<longrightarrow>
      calculateConstrainedDimension original limit = Some Null)"
  by (simp add: calculateConstrainedDimension_def Math_min_def js_or_def)

theorem calculateConstrainedDimension_clamp_witness:
  "calculateConstrainedDimension (Num 1920) (Num 800) = Some (Num 800)
   \<and> calculateConstrainedDimension (Num 640) Undefined = Some (Num 640)
   \<and> calculateConstrainedDimension Undefined (Num 800) = Some (Num 800)
   \<and> calculateConstrainedDimension Null Undefined = Some Null"
  using calculateConstrainedDimension_clamp[of 1920 800 "Num 640" Undefined]
    calculateConstrainedDimension_clamp[of 1 1 Undefined "Num 800"]
    calculateConstrainedDimension_clamp[of 1 1 Null Undefined]
  by simp

text \<open>
  Claim C6 as stated fails at zero: with original 5 and limit 0 the result is 5, which is
  neither the minimum nor at most the limit; with original 0 and limit 5 the result is 5,
  not the minimum 0.
\<close>

theorem zero_limit_counterexample:
  "calculateConstrainedDimension (Num 5) (Num 0) = Some (Num 5)
   \<and> calculateConstrainedDimension (Num 5) (Num 0) \<noteq> Some (Num (min 5 0))
   \<and> \<not> (5 :: int) \<le> 0
   \<and> calculateConstrainedDimension (Num 0) (Num 5) = Some (Num 5)
   \<and> calculateConstrainedDimension (Num 0) (Num 5) \<noteq> Some (Num (min 0 5))"
  by (simp add: calculateConstrainedDimension_def Math_min_def js_or_def)

section \<open>The HTML Generator\<close>

text \<open>
  Claim C9. \<open>generateVideoHtml\<close> returns a string for every metadata object and every
  pair of dimensions: the constructor \<open>new URL\<close> is its only operation that can throw,
  and \<open>sanitizeUrl\<close> catches it. The embed URL is \<open>embedUrl\<close> or, failing that,
  \<open>url\<close>. When it is falsy, does not parse, or has a scheme other than \<open>http:\<close> and
  \<open>https:\<close>, the result is the fixed placeholder. Otherwise (the parsed URL
  serialising to a non-empty string, as every URL does) the result is the iframe whose
  \<open>src\<close> is that serialisation, with the given width and height (else the metadata's,
  else 640 by 360) and the fixed sandbox attribute.
\<close>

theorem generateVideoHtml_placeholder_or_iframe:
  "(\<not> truthy (js_or (getp metadata ''embedUrl'') (getp metadata ''url''))
      \<longrightarrow> generateVideoHtml parse metadata width height = VIDEO_NOT_AVAILABLE)
   \<and> (parse (ToString (js_or (getp metadata ''embedUrl'') (getp metadata ''url''))) = None
      \<longrightarrow> generateVideoHtml parse metadata width height = VIDEO_NOT_AVAILABLE)
   \<and> (parse (ToString (js_or (getp metadata ''embedUrl'') (getp metadata ''url''))) = Some u
        \<and> protocol u \<noteq> ''http:'' \<and> protocol u \<noteq> ''https:''
      \<longrightarrow> generateVideoHtml parse metadata width height = VIDEO_NOT_AVAILABLE)
   \<and> (truthy (js_or (getp metadata ''embedUrl'') (getp metadata ''url''))
        \<and> parse (ToString (js_or (getp metadata ''embedUrl'') (getp metadata ''url''))) = Some u
        \<and> (protocol u = ''http:'' \<or> protocol u = ''https:'') \<and> href u \<noteq> []
      \<longrightarrow> generateVideoHtml parse metadata width height
          = ''<iframe src='' @ dq @ href u @ dq
            @ '' width='' @ dq
            @ ToString (js_or (js_or width (getp metadata ''width'')) (Num 640)) @ dq
            @ '' height='' @ dq
            @ ToString (js_or (js_or height (getp metadata ''height'')) (Num 360)) @ dq
            @ '' frameborder='' @ dq @ ''0'' @ dq
            @ '' allowfullscreen allow='' @ dq @ IFRAME_ALLOW_ATTRIBUTES @ dq
            @ '' sandbox='' @ dq @ ''allow-scripts allow-same-origin allow-presentation'' @ dq
            @ ''></iframe>'')"
  by (auto simp: generateVideoHtml_def sanitizeUrl_def js_or_def Let_def
      IFRAME_SANDBOX_ATTRIBUTES_def)

theorem generateVideoHtml_placeholder_or_iframe_witness:
  "generateVideoHtml exampleURL [] (Num 800) (Num 600) = VIDEO_NOT_AVAILABLE
   \<and> generateVideoHtml exampleURL [(''embedUrl'', Str ''invalid-url'')] (Num 800) (Num 600)
       = VIDEO_NOT_AVAILABLE
   \<and> generateVideoHtml exampleURL [(''url'', Str ''ftp://mybusiness.com/file'')] (Num 800)
       (Num 600) = VIDEO_NOT_AVAILABLE
   \<and> generateVideoHtml exampleURL testVideo (Num 800) (Num 600)
       = ''<iframe src='' @ dq @ ''https://mybusiness.com/embed/123'' @ dq
         @ '' width='' @ dq @ ''800'' @ dq @ '' height='' @ dq @ ''600'' @ dq
         @ '' frameborder='' @ dq @ ''0'' @ dq
         @ '' allowfullscreen allow='' @ dq @ IFRAME_ALLOW_ATTRIBUTES @ dq
         @ '' sandbox='' @ dq @ ''allow-scripts allow-same-origin allow-presentation'' @ dq
         @ ''></iframe>''"
proof -
  have n800: "string_of_int 800 = ''800''" and n600: "string_of_int 600 = ''600''"
    by code_simp+
  have a: "\<not> truthy (js_or (getp [] ''embedUrl'') (getp [] ''url''))"
    by (simp add: js_or_def getp_def)
  have b: "exampleURL (ToString (js_or (getp [(''embedUrl'', Str ''invalid-url'')] ''embedUrl'')
             (getp [(''embedUrl'', Str ''invalid-url'')] ''url''))) = None"
    by (simp add: js_or_def getp_def exampleURL_def)
  have c: "exampleURL (ToString (js_or (getp [(''url'', Str ''ftp://mybusiness.com/file'')] ''embedUrl'')
             (getp [(''url'', Str ''ftp://mybusiness.com/file'')] ''url'')))
             = Some (simpleURL ''ftp:'' ''mybusiness.com'' ''/file'')
           \<and> protocol (simpleURL ''ftp:'' ''mybusiness.com'' ''/file'') \<noteq> ''http:''
           \<and> protocol (simpleURL ''ftp:'' ''mybusiness.com'' ''/file'') \<noteq> ''https:''"
    by (simp add: js_or_def getp_def exampleURL_def simpleURL_def)
  have d: "truthy (js_or (getp testVideo ''embedUrl'') (getp testVideo ''url''))
           \<and> exampleURL (ToString (js_or (getp testVideo ''embedUrl'') (getp testVideo ''url'')))
              = Some (simpleURL ''https:'' ''mybusiness.com'' ''/embed/123'')
           \<and> (protocol (simpleURL ''https:'' ''mybusiness.com'' ''/embed/123'') = ''http:''
              \<or> protocol (simpleURL ''https:'' ''mybusiness.com'' ''/embed/123'') = ''https:'')
           \<and> href (simpleURL ''https:'' ''mybusiness.com'' ''/embed/123'') \<noteq> []"
    by (simp add: js_or_def getp_def exampleURL_def simpleURL_def testVideo_def)
  have e: "href (simpleURL ''https:'' ''mybusiness.com'' ''/embed/123'')
             = ''https://mybusiness.com/embed/123''"
    by (simp add: simpleURL_def)
  have f: "getp testVideo ''width'' = Undefined" "getp testVideo ''height'' = Undefined"
    by (simp_all add: getp_def testVideo_def)
  show ?thesis
    using a b c d
      generateVideoHtml_placeholder_or_iframe[where metadata = "[]" and parse = exampleURL
        and width = "Num 800" and height = "Num 600"]
      generateVideoHtml_placeholder_or_iframe[where
        metadata = "[(''embedUrl'', Str ''invalid-url'')]" and parse = exampleURL
        and width = "Num 800" and height = "Num 600"]
      generateVideoHtml_placeholder_or_iframe[where
        metadata = "[(''url'', Str ''ftp://mybusiness.com/file'')]" and parse = exampleURL
        and width = "Num 800" and height = "Num 600"
        and u = "simpleURL ''ftp:'' ''mybusiness.com'' ''/file''"]
      generateVideoHtml_placeholder_or_iframe[where metadata = testVideo and parse = exampleURL
        and width = "Num 800" and height = "Num 600"
        and u = "simpleURL ''https:'' ''mybusiness.com'' ''/embed/123''"]
    by (simp add: e f js_or_def n800 n600)
qed


section \<open>The URL Authorizer\<close>

lemma validateAndSanitizeUrl_valid:
  "url \<noteq> [] \<Longrightarrow> length url \<le> 2048 \<Longrightarrow> parse url = Some u
   \<Longrightarrow> protocol u = ''http:'' \<or> protocol u = ''https:''
   \<Longrightarrow> validateAndSanitizeUrl parse (Str url)
       = UrlValid (protocol u @ ''//'' @ host u @ pathname u @ search u @ hash u)
           (protocol u) (hostname u) (pathname u)"
  by (auto simp: validateAndSanitizeUrl_def MAX_URL_LENGTH_def ALLOWED_PROTOCOLS_def)

lemma validateAndSanitizeUrl_invalid:
  "url = [] \<or> 2048 < length url \<or> parse url = None
     \<or> (parse url = Some u \<and> protocol u \<noteq> ''http:'' \<and> protocol u \<noteq> ''https:'')
   \<Longrightarrow> \<exists>e. validateAndSanitizeUrl parse (Str url) = UrlInvalid e"
  by (auto simp: validateAndSanitizeUrl_def MAX_URL_LENGTH_def ALLOWED_PROTOCOLS_def
      split: option.splits)

lemma error_messages:
  "ERROR_MESSAGES MISSING_URL = Str ''URL parameter is required''"
  "ERROR_MESSAGES MALFORMED_URL = Str ''Invalid URL''"
  "ERROR_MESSAGES UNAUTHORIZED_DOMAIN = Str ''Provider Domain Not Found''"
  "ERROR_MESSAGES INVALID_FORMAT = Str ''Format not implemented''"
  "ERROR_MESSAGES INVALID_MAXWIDTH = Str ''Maxwidth must be a number between 1 and 2048''"
  "ERROR_MESSAGES INVALID_MAXHEIGHT = Str ''Maxheight must be a number between 1 and 2048''"
  "ERROR_MESSAGES MISSING_PROVIDER_DOMAIN = Str ''Provider domain not configured''"
  by (simp_all add: ERROR_MESSAGES_def ERROR_MESSAGES_table_def)

lemma status_for:
  "statusFor MISSING_URL = 400"
  "statusFor MALFORMED_URL = 400"
  "statusFor INVALID_FORMAT = 501"
  "statusFor INVALID_MAXWIDTH = 400"
  "statusFor INVALID_MAXHEIGHT = 400"
  "statusFor UNAUTHORIZED_DOMAIN = 404"
  "statusFor MISSING_PROVIDER_DOMAIN = 500"
  by (simp_all add: statusFor_def ERROR_STATUS_MAP_def)

text \<open>
  Claim C4. For every URL string: when it is empty, longer than 2048 characters, not
  parseable, or has a scheme other than \<open>http:\<close> and \<open>https:\<close>, the result is
  invalid with code \<open>MALFORMED_URL\<close>. Otherwise, when no provider domain is configured
  (the variable is unset or empty), the result is invalid with code
  \<open>MISSING_PROVIDER_DOMAIN\<close>. Otherwise, when the parsed hostname does not end with the
  provider domain, the result is invalid with code \<open>UNAUTHORIZED_DOMAIN\<close>, which the
  handler maps to 404, and its details name the hostname and the domain. Otherwise the
  result is valid, with the URL object that the platform parses from the reconstructed
  URL; and a valid result is only ever returned for a hostname that ends with the domain.
\<close>

theorem validateAndAuthorizeUrl_cases:
  "(url = [] \<or> 2048 < length url \<or> parse url = None
      \<or> (parse url = Some u \<and> protocol u \<noteq> ''http:'' \<and> protocol u \<noteq> ''https:'')
     \<longrightarrow> (\<exists>why. validateAndAuthorizeUrl parse providerDomain (Str url)
                  = Inr (Rejected (Str ''Invalid URL'') MALFORMED_URL (Str why))))
   \<and> (url \<noteq> [] \<and> length url \<le> 2048 \<and> parse url = Some u
      \<and> (protocol u = ''http:'' \<or> protocol u = ''https:'')
     \<longrightarrow>
       ((providerDomain = None \<or> providerDomain = Some []
          \<longrightarrow> validateAndAuthorizeUrl parse providerDomain (Str url)
              = Inr (Rejected (Str ''Provider domain not configured'')
                      MISSING_PROVIDER_DOMAIN Undefined))
        \<and> (providerDomain = Some d \<and> d \<noteq> [] \<and> \<not> suffix d (hostname u)
          \<longrightarrow> validateAndAuthorizeUrl parse providerDomain (Str url)
              = Inr (Rejected (Str ''Provider Domain Not Found'') UNAUTHORIZED_DOMAIN
                      (Str (''URL hostname '' @ hostname u
                            @ '' does not match provider domain '' @ d)))
            \<and> statusFor UNAUTHORIZED_DOMAIN = 404)
        \<and> (providerDomain = Some d \<and> d \<noteq> [] \<and> suffix d (hostname u)
           \<and> parse (protocol u @ ''//'' @ host u @ pathname u @ search u @ hash u) = Some u'
          \<longrightarrow> validateAndAuthorizeUrl parse providerDomain (Str url)
              = Inr (Authorized u' (hostname u) (pathname u)))
        \<and> (providerDomain = Some d \<and> d \<noteq> []
           \<and> validateAndAuthorizeUrl parse providerDomain (Str url) = Inr a \<and> auth_isValid a
          \<longrightarrow> suffix d (hostname u))))"
proof (intro conjI impI)
  assume "url = [] \<or> 2048 < length url \<or> parse url = None
      \<or> (parse url = Some u \<and> protocol u \<noteq> ''http:'' \<and> protocol u \<noteq> ''https:'')"
  from validateAndSanitizeUrl_invalid[of url parse u, OF this]
  show "\<exists>why. validateAndAuthorizeUrl parse providerDomain (Str url)
                  = Inr (Rejected (Str ''Invalid URL'') MALFORMED_URL (Str why))"
    by (auto simp: validateAndAuthorizeUrl_def error_messages)
next
  assume ok: "url \<noteq> [] \<and> length url \<le> 2048 \<and> parse url = Some u
      \<and> (protocol u = ''http:'' \<or> protocol u = ''https:'')"
  then have v: "validateAndSanitizeUrl parse (Str url)
       = UrlValid (protocol u @ ''//'' @ host u @ pathname u @ search u @ hash u)
           (protocol u) (hostname u) (pathname u)"
    using validateAndSanitizeUrl_valid by blast
  {
    assume "providerDomain = None \<or> providerDomain = Some []"
    then show "validateAndAuthorizeUrl parse providerDomain (Str url)
              = Inr (Rejected (Str ''Provider domain not configured'')
                      MISSING_PROVIDER_DOMAIN Undefined)"
      by (auto simp: validateAndAuthorizeUrl_def v str_or_def error_messages)
  next
    assume "providerDomain = Some d \<and> d \<noteq> [] \<and> \<not> suffix d (hostname u)"
    then show "validateAndAuthorizeUrl parse providerDomain (Str url)
              = Inr (Rejected (Str ''Provider Domain Not Found'') UNAUTHORIZED_DOMAIN
                      (Str (''URL hostname '' @ hostname u
                            @ '' does not match provider domain '' @ d)))"
      by (simp add: validateAndAuthorizeUrl_def v str_or_def error_messages)
  next
    show "statusFor UNAUTHORIZED_DOMAIN = 404" by (rule status_for)
  next
    assume "providerDomain = Some d \<and> d \<noteq> [] \<and> suffix d (hostname u)
           \<and> parse (protocol u @ ''//'' @ host u @ pathname u @ search u @ hash u) = Some u'"
    then show "validateAndAuthorizeUrl parse providerDomain (Str url)
              = Inr (Authorized u' (hostname u) (pathname u))"
      by (simp add: validateAndAuthorizeUrl_def v str_or_def)
  next
    assume "providerDomain = Some d \<and> d \<noteq> []
           \<and> validateAndAuthorizeUrl parse providerDomain (Str url) = Inr a \<and> auth_isValid a"
    then show "suffix d (hostname u)"
      by (auto simp: validateAndAuthorizeUrl_def v str_or_def split: if_splits option.splits)
  }
qed


theorem validateAndAuthorizeUrl_cases_witness:
  "(\<exists>why. validateAndAuthorizeUrl exampleURL (Some ''mybusiness.com'') (Str ''invalid-url'')
            = Inr (Rejected (Str ''Invalid URL'') MALFORMED_URL (Str why)))
   \<and> (\<exists>why. validateAndAuthorizeUrl exampleURL (Some ''mybusiness.com'')
              (Str ''ftp://mybusiness.com/file'')
            = Inr (Rejected (Str ''Invalid URL'') MALFORMED_URL (Str why)))
   \<and> validateAndAuthorizeUrl exampleURL None (Str ''https://mybusiness.com/video/123'')
       = Inr (Rejected (Str ''Provider domain not configured'') MISSING_PROVIDER_DOMAIN Undefined)
   \<and> validateAndAuthorizeUrl exampleURL (Some ''mybusiness.com'')
        (Str ''https://other-domain.com/video'')
       = Inr (Rejected (Str ''Provider Domain Not Found'') UNAUTHORIZED_DOMAIN
               (Str ''URL hostname other-domain.com does not match provider domain mybusiness.com''))
   \<and> validateAndAuthorizeUrl exampleURL (Some ''mybusiness.com'')
        (Str ''https://mybusiness.com/video/123'')
       = Inr (Authorized (simpleURL ''https:'' ''mybusiness.com'' ''/video/123'')
               ''mybusiness.com'' ''/video/123'')
   \<and> suffix ''mybusiness.com''
        (hostname (simpleURL ''https:'' ''mybusiness.com'' ''/video/123''))"
proof -
  let ?v = "simpleURL ''https:'' ''mybusiness.com'' ''/video/123''"
  let ?o = "simpleURL ''https:'' ''other-domain.com'' ''/video''"
  let ?f = "simpleURL ''ftp:'' ''mybusiness.com'' ''/file''"
  have p0: "exampleURL ''invalid-url'' = None"
    by (simp add: exampleURL_def)
  have pf: "exampleURL ''ftp://mybusiness.com/file'' = Some ?f
            \<and> protocol ?f \<noteq> ''http:'' \<and> protocol ?f \<noteq> ''https:''"
    by (simp add: exampleURL_def simpleURL_def)
  have pv: "''https://mybusiness.com/video/123'' \<noteq> []
            \<and> length ''https://mybusiness.com/video/123'' \<le> 2048
            \<and> exampleURL ''https://mybusiness.com/video/123'' = Some ?v
            \<and> (protocol ?v = ''http:'' \<or> protocol ?v = ''https:'')"
    by (simp add: exampleURL_def simpleURL_def)
  have po: "''https://other-domain.com/video'' \<noteq> []
            \<and> length ''https://other-domain.com/video'' \<le> 2048
            \<and> exampleURL ''https://other-domain.com/video'' = Some ?o
            \<and> (protocol ?o = ''http:'' \<or> protocol ?o = ''https:'')"
    by (simp add: exampleURL_def simpleURL_def)
  have so: "\<not> suffix ''mybusiness.com'' (hostname ?o)"
    by (simp add: simpleURL_def) code_simp
  have sv: "suffix ''mybusiness.com'' (hostname ?v)"
    by (simp add: simpleURL_def)
  have rv: "exampleURL (protocol ?v @ ''//'' @ host ?v @ pathname ?v @ search ?v @ hash ?v)
            = Some ?v"
    by (simp add: exampleURL_def simpleURL_def)
  have ho: "hostname ?o = ''other-domain.com''" and hv: "hostname ?v = ''mybusiness.com''"
    and pav: "pathname ?v = ''/video/123''"
    by (simp_all add: simpleURL_def)
  note A1 = validateAndAuthorizeUrl_cases[where url = "''invalid-url''" and parse = exampleURL
      and u = ?v and u' = ?v and a = "Authorized ?v [] []" and d = "[]"
      and providerDomain = "Some ''mybusiness.com''", THEN conjunct1, THEN mp]
  note A2 = validateAndAuthorizeUrl_cases[where url = "''ftp://mybusiness.com/file''"
      and parse = exampleURL and u = ?f and u' = ?v and a = "Authorized ?v [] []" and d = "[]"
      and providerDomain = "Some ''mybusiness.com''", THEN conjunct1, THEN mp]
  note A3 = validateAndAuthorizeUrl_cases[where url = "''https://mybusiness.com/video/123''"
      and parse = exampleURL and u = ?v and u' = ?v and a = "Authorized ?v [] []" and d = "[]"
      and providerDomain = None, THEN conjunct2, THEN mp, OF pv, THEN conjunct1, THEN mp]
  note A4 = validateAndAuthorizeUrl_cases[where url = "''https://other-domain.com/video''"
      and parse = exampleURL and u = ?o and u' = ?v and a = "Authorized ?v [] []"
      and providerDomain = "Some ''mybusiness.com''" and d = "''mybusiness.com''",
      THEN conjunct2, THEN mp, OF po, THEN conjunct2, THEN conjunct1, THEN mp]
  note A5 = validateAndAuthorizeUrl_cases[where url = "''https://mybusiness.com/video/123''"
      and parse = exampleURL and u = ?v and u' = ?v
      and providerDomain = "Some ''mybusiness.com''" and d = "''mybusiness.com''"
      and a = "Authorized ?v ''mybusiness.com'' ''/video/123''",
      THEN conjunct2, THEN mp, OF pv, THEN conjunct2, THEN conjunct2]
  have c1: "\<exists>why. validateAndAuthorizeUrl exampleURL (Some ''mybusiness.com'') (Str ''invalid-url'')
            = Inr (Rejected (Str ''Invalid URL'') MALFORMED_URL (Str why))"
    by (rule A1) (simp add: p0)
  have c2: "\<exists>why. validateAndAuthorizeUrl exampleURL (Some ''mybusiness.com'')
              (Str ''ftp://mybusiness.com/file'')
            = Inr (Rejected (Str ''Invalid URL'') MALFORMED_URL (Str why))"
    by (rule A2) (simp only: pf simp_thms)
  have c3: "validateAndAuthorizeUrl exampleURL None (Str ''https://mybusiness.com/video/123'')
       = Inr (Rejected (Str ''Provider domain not configured'') MISSING_PROVIDER_DOMAIN Undefined)"
    by (rule A3) simp
  have c4': "validateAndAuthorizeUrl exampleURL (Some ''mybusiness.com'')
        (Str ''https://other-domain.com/video'')
       = Inr (Rejected (Str ''Provider Domain Not Found'') UNAUTHORIZED_DOMAIN
               (Str (''URL hostname '' @ hostname ?o
                     @ '' does not match provider domain '' @ ''mybusiness.com'')))"
    by (rule A4[THEN conjunct1]) (simp add: so)
  have c4: "validateAndAuthorizeUrl exampleURL (Some ''mybusiness.com'')
        (Str ''https://other-domain.com/video'')
       = Inr (Rejected (Str ''Provider Domain Not Found'') UNAUTHORIZED_DOMAIN
               (Str ''URL hostname other-domain.com does not match provider domain mybusiness.com''))"
    using c4' by (simp add: ho)
  have c5': "validateAndAuthorizeUrl exampleURL (Some ''mybusiness.com'')
        (Str ''https://mybusiness.com/video/123'')
       = Inr (Authorized ?v (hostname ?v) (pathname ?v))"
    by (rule A5[THEN conjunct1, THEN mp]) (simp only: sv rv simp_thms, simp)
  have c5: "validateAndAuthorizeUrl exampleURL (Some ''mybusiness.com'')
        (Str ''https://mybusiness.com/video/123'')
       = Inr (Authorized ?v ''mybusiness.com'' ''/video/123'')"
    using c5' by (simp add: hv pav)
  have c6: "suffix ''mybusiness.com'' (hostname ?v)"
    by (rule A5[THEN conjunct2, THEN mp]) (simp add: c5)
  show ?thesis
    using c1 c2 c3 c4 c5 c6 by (intro conjI)
qed

section \<open>The Output Formatter\<close>

lemma replace_all_append:
  "replace_all c r (a @ b) = replace_all c r a @ replace_all c r b"
  by (simp add: replace_all_def)

lemma escapeXml_Cons:
  "escapeXml (Str (c # s)) = xml_entity c @ escapeXml (Str s)"
proof -
  have one: "replace_all (CHR 0x27) ''&apos;''
             (replace_all (CHR 0x22) ''&quot;''
               (replace_all (CHR ''>'') ''&gt;''
                 (replace_all (CHR ''<'') ''&lt;''
                   (replace_all (CHR ''&'') ''&amp;'' [c])))) = xml_entity c"
    by (simp add: replace_all_def xml_entity_def)
  have "c # s = [c] @ s" by simp
  then show ?thesis
    unfolding escapeXml_def
    by (cases s) (simp_all only: replace_all_append one truthy.simps ToString.simps,
        simp_all add: replace_all_def)
qed

lemma escapeXml_entities: "escapeXml (Str s) = concat (map xml_entity s)"
proof (induction s)
  case Nil
  show ?case by (simp add: escapeXml_def)
next
  case (Cons c s)
  then show ?case by (simp add: escapeXml_Cons)
qed

lemma json_members_entries:
  "json_members ps
     = map (\<lambda>e. QuoteJSONString (fst e) @ '':'' @ json_value (snd e)) (jsonEntries ps)"
proof (induction ps)
  case Nil
  show ?case by (simp add: jsonEntries_def)
next
  case (Cons p ps)
  obtain k v where p: "p = (k, v)" by (cases p)
  show ?case using Cons unfolding p by (cases v) (simp_all add: jsonEntries_def)
qed

lemma xmlEntries_jsonEntries:
  "xmlEntries data = filter (\<lambda>e. snd e \<noteq> Null) (jsonEntries data)"
  by (induction data) (auto simp: xmlEntries_def jsonEntries_def)

lemma xmlEntries_no_null:
  "Null \<notin> snd ` set data \<Longrightarrow> xmlEntries data = jsonEntries data"
  by (induction data) (auto simp: xmlEntries_def jsonEntries_def)

text \<open>
  Claim C7, as the code has it. The JSON body holds one member for every field of the
  response whose value is not \<open>undefined\<close>, and so writes a \<open>null\<close> field as
  \<open>null\<close>. The XML body starts with the XML declaration, followed by the \<open><oembed>\<close>
  root with one flat child element, in key order, for every field whose value is neither
  \<open>undefined\<close> nor \<open>null\<close>; the value of each element is escaped character by
  character (\<open>&\<close>, \<open><\<close>, \<open>>\<close>, the double quote and the apostrophe become
  \<open>&amp;\<close>, \<open>&lt;\<close>, \<open>&gt;\<close>, \<open>&quot;\<close> and \<open>&apos;\<close>). So the XML elements are
  the JSON fields that are not \<open>null\<close>, and the two sets of field names are equal when
  no field of the response is \<open>null\<close>.
\<close>

theorem json_and_xml_fields:
  "body (formatJsonResponse data)
     = ''{'' @ join '','' (map (\<lambda>e. QuoteJSONString (fst e) @ '':'' @ json_value (snd e))
                              (jsonEntries data)) @ ''}''
   \<and> body (formatXmlResponse data)
     = ''<?xml version='' @ dq @ ''1.0'' @ dq @ '' encoding='' @ dq @ ''utf-8'' @ dq
       @ '' standalone='' @ dq @ ''yes'' @ dq @ ''?>'' @ nl @ ''<oembed>'' @ nl
       @ join nl (map (\<lambda>e. ''  <'' @ fst e @ ''>''
                            @ concat (map xml_entity (ToString (snd e)))
                            @ ''</'' @ fst e @ ''>'') (xmlEntries data))
       @ nl @ ''</oembed>''
   \<and> xmlEntries data = filter (\<lambda>e. snd e \<noteq> Null) (jsonEntries data)
   \<and> (Null \<notin> snd ` set data \<longrightarrow> map fst (xmlEntries data) = map fst (jsonEntries data))"
proof (intro conjI impI)
  show "body (formatJsonResponse data)
     = ''{'' @ join '','' (map (\<lambda>e. QuoteJSONString (fst e) @ '':'' @ json_value (snd e))
                              (jsonEntries data)) @ ''}''"
    by (simp add: formatJsonResponse_def JSON_stringify_def json_members_entries)
next
  have x: "map xmlElement (xmlEntries data)
     = map (\<lambda>e. ''  <'' @ fst e @ ''>'' @ concat (map xml_entity (ToString (snd e)))
                @ ''</'' @ fst e @ ''>'') (xmlEntries data)"
    by (simp add: xmlElement_def escapeXml_entities)
  show "body (formatXmlResponse data)
     = ''<?xml version='' @ dq @ ''1.0'' @ dq @ '' encoding='' @ dq @ ''utf-8'' @ dq
       @ '' standalone='' @ dq @ ''yes'' @ dq @ ''?>'' @ nl @ ''<oembed>'' @ nl
       @ join nl (map (\<lambda>e. ''  <'' @ fst e @ ''>''
                            @ concat (map xml_entity (ToString (snd e)))
                            @ ''</'' @ fst e @ ''>'') (xmlEntries data))
       @ nl @ ''</oembed>''"
    by (simp add: formatXmlResponse_def generateXmlBody_def XML_DECLARATION_def x Let_def)
next
  show "xmlEntries data = filter (\<lambda>e. snd e \<noteq> Null) (jsonEntries data)"
    by (rule xmlEntries_jsonEntries)
next
  assume "Null \<notin> snd ` set data"
  then show "map fst (xmlEntries data) = map fst (jsonEntries data)"
    by (simp add: xmlEntries_no_null)
qed

theorem json_and_xml_fields_witness:
  "map fst (xmlEntries [(''version'', Str ''1.0''), (''type'', Str ''link''),
                        (''title'', Str ''A & B''), (''author_name'', Undefined)])
     = [''version'', ''type'', ''title'']
   \<and> map fst (jsonEntries [(''version'', Str ''1.0''), (''type'', Str ''link''),
                           (''title'', Str ''A & B''), (''author_name'', Undefined)])
     = [''version'', ''type'', ''title'']"
proof -
  have h: "Null \<notin> snd ` set [(''version'', Str ''1.0''), (''type'', Str ''link''),
                        (''title'', Str ''A & B''), (''author_name'', Undefined)]"
    by simp
  have j: "map fst (jsonEntries [(''version'', Str ''1.0''), (''type'', Str ''link''),
                           (''title'', Str ''A & B''), (''author_name'', Undefined)])
     = [''version'', ''type'', ''title'']"
    by (simp add: jsonEntries_def)
  show ?thesis
    using json_and_xml_fields[where data = "[(''version'', Str ''1.0''), (''type'', Str ''link''),
                        (''title'', Str ''A & B''), (''author_name'', Undefined)]",
        THEN conjunct2, THEN conjunct2, THEN conjunct2, THEN mp, OF h] j
    by simp
qed

text \<open>
  Claim C7 as stated fails on a response with a \<open>null\<close> field. The Response Builder
  produces one from metadata whose \<open>cache_age\<close> is \<open>null\<close>: the JSON body has the
  member \<open>cache_age\<close>, the XML body has no such element.
\<close>

theorem null_field_counterexample:
  "createTypeSpecificResponse exampleURL None None
     [(''type'', Str ''link''), (''cache_age'', Null)] Undefined Undefined
     = Inr [(''version'', Str ''1.0''), (''cache_age'', Null), (''type'', Str ''link''),
            (''provider_name'', Str ''oEmbed Provider''),
            (''provider_url'', Str ''https://example.com'')]
   \<and> map fst (jsonEntries
        [(''version'', Str ''1.0''), (''cache_age'', Null), (''type'', Str ''link''),
         (''provider_name'', Str ''oEmbed Provider''),
         (''provider_url'', Str ''https://example.com'')])
       = [''version'', ''cache_age'', ''type'', ''provider_name'', ''provider_url'']
   \<and> map fst (xmlEntries
        [(''version'', Str ''1.0''), (''cache_age'', Null), (''type'', Str ''link''),
         (''provider_name'', Str ''oEmbed Provider''),
         (''provider_url'', Str ''https://example.com'')])
       = [''version'', ''type'', ''provider_name'', ''provider_url'']
   \<and> body (formatJsonResponse
        [(''version'', Str ''1.0''), (''cache_age'', Null), (''type'', Str ''link''),
         (''provider_name'', Str ''oEmbed Provider''),
         (''provider_url'', Str ''https://example.com'')])
       = ''{'' @ dq @ ''version'' @ dq @ '':'' @ dq @ ''1.0'' @ dq @ '',''
         @ dq @ ''cache_age'' @ dq @ '':null,''
         @ dq @ ''type'' @ dq @ '':'' @ dq @ ''link'' @ dq @ '',''
         @ dq @ ''provider_name'' @ dq @ '':'' @ dq @ ''oEmbed Provider'' @ dq @ '',''
         @ dq @ ''provider_url'' @ dq @ '':'' @ dq @ ''https://example.com'' @ dq @ ''}''
   \<and> body (formatXmlResponse
        [(''version'', Str ''1.0''), (''cache_age'', Null), (''type'', Str ''link''),
         (''provider_name'', Str ''oEmbed Provider''),
         (''provider_url'', Str ''https://example.com'')])
       = ''<?xml version='' @ dq @ ''1.0'' @ dq @ '' encoding='' @ dq @ ''utf-8'' @ dq
         @ '' standalone='' @ dq @ ''yes'' @ dq @ ''?>'' @ nl @ ''<oembed>'' @ nl
         @ ''  <version>1.0</version>'' @ nl
         @ ''  <type>link</type>'' @ nl
         @ ''  <provider_name>oEmbed Provider</provider_name>'' @ nl
         @ ''  <provider_url>https://example.com</provider_url>'' @ nl
         @ ''</oembed>''"
proof -
  let ?R = "[(''version'', Str ''1.0''), (''cache_age'', Null), (''type'', Str ''link''),
            (''provider_name'', Str ''oEmbed Provider''),
            (''provider_url'', Str ''https://example.com'')]"
  have a: "createTypeSpecificResponse exampleURL None None
     [(''type'', Str ''link''), (''cache_age'', Null)] Undefined Undefined = Inr ?R"
    by code_simp
  have b: "map fst (jsonEntries ?R)
       = [''version'', ''cache_age'', ''type'', ''provider_name'', ''provider_url'']"
    by (simp add: jsonEntries_def)
  have c: "map fst (xmlEntries ?R) = [''version'', ''type'', ''provider_name'', ''provider_url'']"
    by (simp add: xmlEntries_def)
  have d: "body (formatJsonResponse ?R)
       = ''{'' @ dq @ ''version'' @ dq @ '':'' @ dq @ ''1.0'' @ dq @ '',''
         @ dq @ ''cache_age'' @ dq @ '':null,''
         @ dq @ ''type'' @ dq @ '':'' @ dq @ ''link'' @ dq @ '',''
         @ dq @ ''provider_name'' @ dq @ '':'' @ dq @ ''oEmbed Provider'' @ dq @ '',''
         @ dq @ ''provider_url'' @ dq @ '':'' @ dq @ ''https://example.com'' @ dq @ ''}''"
    by (simp add: formatJsonResponse_def JSON_stringify_def QuoteJSONString_def
        quoteJSONChar_def)
  have e: "body (formatXmlResponse ?R)
       = ''<?xml version='' @ dq @ ''1.0'' @ dq @ '' encoding='' @ dq @ ''utf-8'' @ dq
         @ '' standalone='' @ dq @ ''yes'' @ dq @ ''?>'' @ nl @ ''<oembed>'' @ nl
         @ ''  <version>1.0</version>'' @ nl
         @ ''  <type>link</type>'' @ nl
         @ ''  <provider_name>oEmbed Provider</provider_name>'' @ nl
         @ ''  <provider_url>https://example.com</provider_url>'' @ nl
         @ ''</oembed>''"
    by (simp add: formatXmlResponse_def generateXmlBody_def xmlEntries_def xmlElement_def
        escapeXml_def replace_all_def XML_DECLARATION_def)
  show ?thesis
    using a b c d e by (intro conjI)
qed

section \<open>The Parameter Validator and the handler\<close>

lemma validate_parts:
  "errors (validateOembedParams (Some q))
     = urlErrors q @ formatErrors q @ maxwidthErrors q @ maxheightErrors q"
  "isValid (validateOembedParams (Some q)) = (errors (validateOembedParams (Some q)) = [])"
  "vformat (validateOembedParams (Some q)) = str_or (q_format q) ''json''"
  by (simp_all add: validateOembedParams_def Let_def DEFAULT_FORMAT_def)

lemma validateDimension_rejected:
  "validateDimension v ''maxwidth'' INVALID_MAXWIDTH
     = (if rejectedDimension v
        then Some \<lparr>field = ''maxwidth'',
                   message = Str ''Maxwidth must be a number between 1 and 2048'',
                   code = INVALID_MAXWIDTH\<rparr>
        else None)"
  "validateDimension v ''maxheight'' INVALID_MAXHEIGHT
     = (if rejectedDimension v
        then Some \<lparr>field = ''maxheight'',
                   message = Str ''Maxheight must be a number between 1 and 2048'',
                   code = INVALID_MAXHEIGHT\<rparr>
        else None)"
  by (auto simp: validateDimension_def validateNumeric_def rejectedDimension_def
      createValidationError_def error_messages MIN_DIMENSION_def MAX_WIDTH_LIMIT_def
      MAX_HEIGHT_LIMIT_def split: option.splits)

lemma phase_errors:
  "urlErrors q
     = (if str_or (q_url q) [] = []
        then [\<lparr>field = ''url'', message = Str ''URL parameter is required'',
                code = MISSING_URL\<rparr>]
        else [])"
  "formatErrors q
     = (if str_or (q_format q) ''json'' \<noteq> ''json'' \<and> str_or (q_format q) ''json'' \<noteq> ''xml''
        then [\<lparr>field = ''format'', message = Str ''Format not implemented'',
                code = INVALID_FORMAT\<rparr>]
        else [])"
  "maxwidthErrors q
     = (case q_maxwidth q of
          None \<Rightarrow> []
        | Some v \<Rightarrow>
            if rejectedDimension v
            then [\<lparr>field = ''maxwidth'',
                    message = Str ''Maxwidth must be a number between 1 and 2048'',
                    code = INVALID_MAXWIDTH\<rparr>]
            else [])"
  "maxheightErrors q
     = (case q_maxheight q of
          None \<Rightarrow> []
        | Some v \<Rightarrow>
            if rejectedDimension v
            then [\<lparr>field = ''maxheight'',
                    message = Str ''Maxheight must be a number between 1 and 2048'',
                    code = INVALID_MAXHEIGHT\<rparr>]
            else [])"
  by (simp_all add: urlErrors_def formatErrors_def maxwidthErrors_def maxheightErrors_def
      createValidationError_def error_messages validateDimension_rejected
      VALID_FORMATS_def DEFAULT_FORMAT_def split: option.splits)

lemma handler_first_error:
  assumes "errors (validateOembedParams (Some q)) = e # es"
  shows "handler rt \<lparr>queryStringParameters = Some q\<rparr>
     = Some (formatErrorResponse (timestamp rt) (requestId rt) (statusFor (code e)) (message e)
               (str_or (q_format q) ''json'') (Str (code e)) Null)"
proof -
  have nv: "\<not> isValid (validateOembedParams (Some q))"
    using assms by (simp only: validate_parts(2)) simp
  have "handlerTry rt q
     = Inr (formatErrorResponse (timestamp rt) (requestId rt) (statusFor (code e)) (message e)
               (vformat (validateOembedParams (Some q))) (Str (code e)) Null)"
    by (simp add: handlerTry_def Let_def nv assms)
  then show ?thesis
    by (simp add: handler_def validate_parts(3))
qed

lemma handler_no_query:
  "handler rt \<lparr>queryStringParameters = None\<rparr>
     = handler rt \<lparr>queryStringParameters = Some noParams\<rparr>"
  by (simp add: handler_def)


lemma statusCode_formatResponse: "statusCode (formatResponse data fmt) = 200"
  by (simp add: formatResponse_def formatXmlResponse_def formatJsonResponse_def)

lemma handlerTry_valid:
  assumes "errors (validateOembedParams (Some q)) = []"
  shows "handlerTry rt q
     = (case validateAndAuthorizeUrl (newURL rt) (PROVIDER_DOMAIN rt)
               (s_url (sanitizeParams (decodeURIComponent rt) (Some q))) of
          Inl e \<Rightarrow> Inl e
        | Inr (Rejected err c details) \<Rightarrow>
            Inr (formatErrorResponse (timestamp rt) (requestId rt) (statusFor c) err
                   (s_format (sanitizeParams (decodeURIComponent rt) (Some q))) (Str c) details)
        | Inr (Authorized urlObj hn pn) \<Rightarrow>
            (case getContentMetadata rt
                    (s_url (sanitizeParams (decodeURIComponent rt) (Some q)))
                    (s_maxwidth (sanitizeParams (decodeURIComponent rt) (Some q)))
                    (s_maxheight (sanitizeParams (decodeURIComponent rt) (Some q))) of
               Inl e \<Rightarrow> Inl e
             | Inr metadata \<Rightarrow>
                 (case createTypeSpecificResponse (newURL rt) (PROVIDER_NAME rt)
                         (PROVIDER_URL rt) metadata
                         (s_maxwidth (sanitizeParams (decodeURIComponent rt) (Some q)))
                         (s_maxheight (sanitizeParams (decodeURIComponent rt) (Some q))) of
                    Inl e \<Rightarrow> Inl e
                  | Inr oembedResponse \<Rightarrow>
                      Inr (formatResponse oembedResponse
                             (s_format (sanitizeParams (decodeURIComponent rt) (Some q)))))))"
proof -
  have v: "isValid (validateOembedParams (Some q))"
    using assms by (simp only: validate_parts(2))
  show ?thesis
    by (simp add: handlerTry_def Let_def v)
qed

lemma handler_success:
  assumes "errors (validateOembedParams (Some q)) = []"
    and "validateAndAuthorizeUrl (newURL rt) (PROVIDER_DOMAIN rt)
           (s_url (sanitizeParams (decodeURIComponent rt) (Some q))) = Inr (Authorized uo hn pn)"
    and "getContentMetadata rt (s_url (sanitizeParams (decodeURIComponent rt) (Some q)))
           (s_maxwidth (sanitizeParams (decodeURIComponent rt) (Some q)))
           (s_maxheight (sanitizeParams (decodeURIComponent rt) (Some q))) = Inr metadata"
    and "createTypeSpecificResponse (newURL rt) (PROVIDER_NAME rt) (PROVIDER_URL rt) metadata
           (s_maxwidth (sanitizeParams (decodeURIComponent rt) (Some q)))
           (s_maxheight (sanitizeParams (decodeURIComponent rt) (Some q))) = Inr r"
  shows "handler rt \<lparr>queryStringParameters = Some q\<rparr>
     = Some (formatResponse r (s_format (sanitizeParams (decodeURIComponent rt) (Some q))))"
  by (simp add: handler_def handlerTry_valid[OF assms(1)] assms(2,3,4))

lemma handler_construction_error:
  assumes "errors (validateOembedParams (Some q)) = []"
    and "validateAndAuthorizeUrl (newURL rt) (PROVIDER_DOMAIN rt)
           (s_url (sanitizeParams (decodeURIComponent rt) (Some q))) = Inr (Authorized uo hn pn)"
    and "getContentMetadata rt (s_url (sanitizeParams (decodeURIComponent rt) (Some q)))
           (s_maxwidth (sanitizeParams (decodeURIComponent rt) (Some q)))
           (s_maxheight (sanitizeParams (decodeURIComponent rt) (Some q))) = Inr metadata"
    and "createTypeSpecificResponse (newURL rt) (PROVIDER_NAME rt) (PROVIDER_URL rt) metadata
           (s_maxwidth (sanitizeParams (decodeURIComponent rt) (Some q)))
           (s_maxheight (sanitizeParams (decodeURIComponent rt) (Some q))) = Inl (Error msg)"
  shows "handler rt \<lparr>queryStringParameters = Some q\<rparr>
     = Some (formatErrorResponse (timestamp rt) (requestId rt) 500
               (Str ''Internal server error'') (str_or (q_format q) ''json'')
               (Str INTERNAL_ERROR) Null)"
  by (simp add: handler_def handlerTry_valid[OF assms(1)] assms(2,3,4))

lemma example_sanitized:
  "u \<noteq> [] \<Longrightarrow>
   s_url (sanitizeParams (decodeURIComponent exampleRuntime)
            (Some \<lparr>q_url = Some u, q_format = f, q_maxwidth = mw, q_maxheight = mh\<rparr>)) = Str u"
  "s_format (sanitizeParams (decodeURIComponent exampleRuntime)
            (Some \<lparr>q_url = x, q_format = f, q_maxwidth = mw, q_maxheight = mh\<rparr>))
     = str_or f ''json''"
  "s_maxwidth (sanitizeParams (decodeURIComponent exampleRuntime)
            (Some \<lparr>q_url = x, q_format = f, q_maxwidth = None, q_maxheight = mh\<rparr>)) = Undefined"
  "s_maxwidth (sanitizeParams (decodeURIComponent exampleRuntime)
            (Some \<lparr>q_url = x, q_format = f, q_maxwidth = Some w, q_maxheight = mh\<rparr>))
     = parsedOrNull w"
  "s_maxheight (sanitizeParams (decodeURIComponent exampleRuntime)
            (Some \<lparr>q_url = x, q_format = f, q_maxwidth = mw, q_maxheight = None\<rparr>)) = Undefined"
  by (simp_all add: sanitizeParams_def exampleRuntime_def str_or_def safeParseInteger_def
      DEFAULT_FORMAT_def Let_def)

lemma example_authorized:
  "validateAndAuthorizeUrl exampleURL (Some ''mybusiness.com'')
     (Str ''https://mybusiness.com/video/123'')
     = Inr (Authorized (simpleURL ''https:'' ''mybusiness.com'' ''/video/123'')
             ''mybusiness.com'' ''/video/123'')"
  "validateAndAuthorizeUrl exampleURL (Some ''mybusiness.com'')
     (Str ''https://mybusiness.com/photo/1'')
     = Inr (Authorized (simpleURL ''https:'' ''mybusiness.com'' ''/photo/1'')
             ''mybusiness.com'' ''/photo/1'')"
  "validateAndAuthorizeUrl exampleURL (Some ''mybusiness.com'')
     (Str ''https://mybusiness.com/video/9'')
     = Inr (Authorized (simpleURL ''https:'' ''mybusiness.com'' ''/video/9'')
             ''mybusiness.com'' ''/video/9'')"
  by code_simp+

lemma example_runtime:
  "newURL exampleRuntime = exampleURL"
  "PROVIDER_DOMAIN exampleRuntime = Some ''mybusiness.com''"
  "PROVIDER_NAME exampleRuntime = Some ''Example Provider''"
  "PROVIDER_URL exampleRuntime = Some ''https://mybusiness.com''"
  "getContentMetadata exampleRuntime = exampleBackend"
  by (simp_all add: exampleRuntime_def)

lemma parseInt_examples:
  "parseInt ''1.5'' = Some 1"
  "parseInt ''12px'' = Some 12"
  "parseInt ''3000'' = Some 3000"
  "parseInt ''invalid'' = None"
  "parseInt ''0'' = Some 0"
  "parseInt ''800'' = Some 800"
  by code_simp+

lemma video_response_exists:
  "truthy (getp metadata ''embedUrl'') \<Longrightarrow> getp metadata ''type'' = Str ''video''
   \<Longrightarrow> getp metadata ''width'' = Undefined \<Longrightarrow> getp metadata ''height'' = Undefined
   \<Longrightarrow> \<exists>r. createTypeSpecificResponse parse pn pu metadata mw mh = Inr r"
  by (simp add: createTypeSpecificResponse_def createVideoResponse_def dimensionOr_def
      calculateConstrainedDimension_def js_or_def Let_def)

text \<open>
  Claim C1, as the code has it. \<open>validateOembedParams\<close> collects the errors in the
  order url, format, maxwidth, maxheight, and the handler answers with the first error of
  the list alone: its message and code, with the status that \<open>ERROR_STATUS_MAP\<close> gives
  the code, in the validated format. A request whose \<open>url\<close> is missing or empty (and a
  request without query string) gets status 400 and code \<open>MISSING_URL\<close>, whatever its
  format. A request with a non-empty \<open>url\<close> and a non-empty \<open>format\<close> other than
  \<open>json\<close> and \<open>xml\<close> gets status 501 and code \<open>INVALID_FORMAT\<close>. An empty
  \<open>format\<close> counts as absent and defaults to \<open>json\<close>.
\<close>

theorem first_error_decides_response:
  "map code (errors (validateOembedParams (Some q)))
     = (if q_url q = None \<or> q_url q = Some [] then [MISSING_URL] else [])
       @ (if str_or (q_format q) ''json'' \<noteq> ''json'' \<and> str_or (q_format q) ''json'' \<noteq> ''xml''
          then [INVALID_FORMAT] else [])
       @ (case q_maxwidth q of
            None \<Rightarrow> []
          | Some v \<Rightarrow> if rejectedDimension v then [INVALID_MAXWIDTH] else [])
       @ (case q_maxheight q of
            None \<Rightarrow> []
          | Some v \<Rightarrow> if rejectedDimension v then [INVALID_MAXHEIGHT] else [])
   \<and> (errors (validateOembedParams (Some q)) = e # es
      \<longrightarrow> handler rt \<lparr>queryStringParameters = Some q\<rparr>
          = Some (formatErrorResponse (timestamp rt) (requestId rt) (statusFor (code e))
                    (message e) (str_or (q_format q) ''json'') (Str (code e)) Null))
   \<and> (q_url q = None \<or> q_url q = Some []
      \<longrightarrow> handler rt \<lparr>queryStringParameters = Some q\<rparr>
          = Some (formatErrorResponse (timestamp rt) (requestId rt) 400
                    (Str ''URL parameter is required'') (str_or (q_format q) ''json'')
                    (Str MISSING_URL) Null)
        \<and> map_option statusCode (handler rt \<lparr>queryStringParameters = Some q\<rparr>) = Some 400)
   \<and> handler rt \<lparr>queryStringParameters = None\<rparr>
       = Some (formatErrorResponse (timestamp rt) (requestId rt) 400
                 (Str ''URL parameter is required'') ''json'' (Str MISSING_URL) Null)
   \<and> (q_url q = Some u \<and> u \<noteq> [] \<and> q_format q = Some f \<and> f \<noteq> []
       \<and> f \<noteq> ''json'' \<and> f \<noteq> ''xml''
      \<longrightarrow> handler rt \<lparr>queryStringParameters = Some q\<rparr>
          = Some (formatErrorResponse (timestamp rt) (requestId rt) 501
                    (Str ''Format not implemented'') f (Str INVALID_FORMAT) Null)
        \<and> map_option statusCode (handler rt \<lparr>queryStringParameters = Some q\<rparr>) = Some 501)"
proof (intro conjI impI)
  show "map code (errors (validateOembedParams (Some q)))
     = (if q_url q = None \<or> q_url q = Some [] then [MISSING_URL] else [])
       @ (if str_or (q_format q) ''json'' \<noteq> ''json'' \<and> str_or (q_format q) ''json'' \<noteq> ''xml''
          then [INVALID_FORMAT] else [])
       @ (case q_maxwidth q of
            None \<Rightarrow> []
          | Some v \<Rightarrow> if rejectedDimension v then [INVALID_MAXWIDTH] else [])
       @ (case q_maxheight q of
            None \<Rightarrow> []
          | Some v \<Rightarrow> if rejectedDimension v then [INVALID_MAXHEIGHT] else [])"
    by (simp add: validate_parts(1) phase_errors str_or_def split: option.splits)
next
  assume "errors (validateOembedParams (Some q)) = e # es"
  then show "handler rt \<lparr>queryStringParameters = Some q\<rparr>
          = Some (formatErrorResponse (timestamp rt) (requestId rt) (statusFor (code e))
                    (message e) (str_or (q_format q) ''json'') (Str (code e)) Null)"
    by (rule handler_first_error)
next
  assume m: "q_url q = None \<or> q_url q = Some []"
  then have "\<exists>es. errors (validateOembedParams (Some q))
      = \<lparr>field = ''url'', message = Str ''URL parameter is required'', code = MISSING_URL\<rparr> # es"
    by (auto simp: validate_parts(1) phase_errors(1) str_or_def)
  then obtain es' where "errors (validateOembedParams (Some q))
      = \<lparr>field = ''url'', message = Str ''URL parameter is required'', code = MISSING_URL\<rparr> # es'"
    by blast
  from handler_first_error[OF this, of rt]
  show h: "handler rt \<lparr>queryStringParameters = Some q\<rparr>
          = Some (formatErrorResponse (timestamp rt) (requestId rt) 400
                    (Str ''URL parameter is required'') (str_or (q_format q) ''json'')
                    (Str MISSING_URL) Null)"
    by (simp add: status_for)
  show "map_option statusCode (handler rt \<lparr>queryStringParameters = Some q\<rparr>) = Some 400"
    by (simp only: h option.map statusCode_formatErrorResponse)
next
  have "errors (validateOembedParams (Some noParams))
      = [\<lparr>field = ''url'', message = Str ''URL parameter is required'', code = MISSING_URL\<rparr>]"
    by (simp add: validate_parts(1) phase_errors noParams_def str_or_def)
  from handler_first_error[OF this, of rt]
  show "handler rt \<lparr>queryStringParameters = None\<rparr>
       = Some (formatErrorResponse (timestamp rt) (requestId rt) 400
                 (Str ''URL parameter is required'') ''json'' (Str MISSING_URL) Null)"
    by (simp add: handler_no_query status_for noParams_def str_or_def)
next
  assume a: "q_url q = Some u \<and> u \<noteq> [] \<and> q_format q = Some f \<and> f \<noteq> []
       \<and> f \<noteq> ''json'' \<and> f \<noteq> ''xml''"
  then have "\<exists>es. errors (validateOembedParams (Some q))
      = \<lparr>field = ''format'', message = Str ''Format not implemented'', code = INVALID_FORMAT\<rparr> # es"
    by (auto simp: validate_parts(1) phase_errors(1,2) str_or_def)
  then obtain es' where "errors (validateOembedParams (Some q))
      = \<lparr>field = ''format'', message = Str ''Format not implemented'', code = INVALID_FORMAT\<rparr> # es'"
    by blast
  from handler_first_error[OF this, of rt]
  show h: "handler rt \<lparr>queryStringParameters = Some q\<rparr>
          = Some (formatErrorResponse (timestamp rt) (requestId rt) 501
                    (Str ''Format not implemented'') f (Str INVALID_FORMAT) Null)"
    using a by (simp add: status_for str_or_def)
  show "map_option statusCode (handler rt \<lparr>queryStringParameters = Some q\<rparr>) = Some 501"
    by (simp only: h option.map statusCode_formatErrorResponse)
qed


theorem first_error_decides_response_witness:
  "handler exampleRuntime (request None (Some ''xml'') None None)
     = Some (formatErrorResponse (timestamp exampleRuntime) (requestId exampleRuntime) 400
               (Str ''URL parameter is required'') ''xml'' (Str MISSING_URL) Null)
   \<and> map_option statusCode (handler exampleRuntime (request None (Some ''xml'') None None))
       = Some 400
   \<and> handler exampleRuntime
        (request (Some ''https://mybusiness.com/video/123'') (Some ''invalid'') None None)
       = Some (formatErrorResponse (timestamp exampleRuntime) (requestId exampleRuntime) 501
                 (Str ''Format not implemented'') ''invalid'' (Str INVALID_FORMAT) Null)
   \<and> map_option statusCode
        (handler exampleRuntime
          (request (Some ''https://mybusiness.com/video/123'') (Some ''invalid'') None None))
       = Some 501
   \<and> handler exampleRuntime
        (request (Some ''https://mybusiness.com/video/123'') None None (Some ''3000''))
       = Some (formatErrorResponse (timestamp exampleRuntime) (requestId exampleRuntime) 400
                 (Str ''Maxheight must be a number between 1 and 2048'') ''json''
                 (Str INVALID_MAXHEIGHT) Null)"
proof -
  let ?q1 = "\<lparr>q_url = None, q_format = Some ''xml'', q_maxwidth = None, q_maxheight = None\<rparr>"
  let ?q2 = "\<lparr>q_url = Some ''https://mybusiness.com/video/123'', q_format = Some ''invalid'',
              q_maxwidth = None, q_maxheight = None\<rparr>"
  let ?q3 = "\<lparr>q_url = Some ''https://mybusiness.com/video/123'', q_format = None,
              q_maxwidth = None, q_maxheight = Some ''3000''\<rparr>"
  let ?e3 = "\<lparr>field = ''maxheight'',
              message = Str ''Maxheight must be a number between 1 and 2048'',
              code = INVALID_MAXHEIGHT\<rparr>"
  have h1: "q_url ?q1 = None \<or> q_url ?q1 = Some []" by simp
  have h2: "q_url ?q2 = Some ''https://mybusiness.com/video/123''
            \<and> ''https://mybusiness.com/video/123'' \<noteq> []
            \<and> q_format ?q2 = Some ''invalid'' \<and> ''invalid'' \<noteq> []
            \<and> ''invalid'' \<noteq> ''json'' \<and> ''invalid'' \<noteq> ''xml''" by simp
  have r3: "rejectedDimension ''3000''"
    by (simp add: rejectedDimension_def parseInt_examples)
  have h3: "errors (validateOembedParams (Some ?q3)) = ?e3 # []"
    by (simp add: validate_parts(1) phase_errors str_or_def r3)
  note t1 = first_error_decides_response[where q = ?q1 and rt = exampleRuntime
      and e = ?e3 and es = "[]" and u = "[]" and f = "[]",
      THEN conjunct2, THEN conjunct2, THEN conjunct1, THEN mp, OF h1]
  note t2 = first_error_decides_response[where q = ?q2 and rt = exampleRuntime
      and e = ?e3 and es = "[]" and u = "''https://mybusiness.com/video/123''"
      and f = "''invalid''",
      THEN conjunct2, THEN conjunct2, THEN conjunct2, THEN conjunct2, THEN mp, OF h2]
  note t3 = first_error_decides_response[where q = ?q3 and rt = exampleRuntime
      and e = ?e3 and es = "[]" and u = "[]" and f = "[]",
      THEN conjunct2, THEN conjunct1, THEN mp, OF h3]
  show ?thesis
    using t1 t2 t3
    by (simp add: request_def str_or_def status_for statusCode_formatErrorResponse)
qed

text \<open>
  Claim C1 as stated fails for the empty format: \<open>format=\<close> is a value outside
  \<open>json\<close> and \<open>xml\<close>, yet \<open>params.format || "json"\<close> replaces it by the default, no
  error is reported and the request of the examples succeeds with status 200.
\<close>

theorem empty_format_counterexample:
  "[] \<notin> set VALID_FORMATS
   \<and> errors (validateOembedParams
        (Some \<lparr>q_url = Some ''https://mybusiness.com/video/123'', q_format = Some [],
               q_maxwidth = None, q_maxheight = None\<rparr>)) = []
   \<and> map_option statusCode
        (handler exampleRuntime
          (request (Some ''https://mybusiness.com/video/123'') (Some []) None None))
       = Some 200"
proof -
  let ?q = "\<lparr>q_url = Some ''https://mybusiness.com/video/123'', q_format = Some [],
               q_maxwidth = None, q_maxheight = None\<rparr>"
  have v: "errors (validateOembedParams (Some ?q)) = []"
    by (simp add: validate_parts(1) phase_errors str_or_def)
  have g: "getp testVideo ''embedUrl'' = Str ''https://mybusiness.com/embed/123''"
    "getp testVideo ''type'' = Str ''video''"
    "getp testVideo ''width'' = Undefined" "getp testVideo ''height'' = Undefined"
    by (simp_all add: getp_def testVideo_def)
  obtain r where r: "createTypeSpecificResponse exampleURL (Some ''Example Provider'')
      (Some ''https://mybusiness.com'') testVideo Undefined Undefined = Inr r"
    using video_response_exists[of testVideo exampleURL "Some ''Example Provider''"
        "Some ''https://mybusiness.com''" Undefined Undefined]
    by (simp add: g) blast
  have "handler exampleRuntime \<lparr>queryStringParameters = Some ?q\<rparr>
      = Some (formatResponse r (s_format (sanitizeParams (decodeURIComponent exampleRuntime)
                (Some ?q))))"
  proof (rule handler_success[OF v])
    show "validateAndAuthorizeUrl (newURL exampleRuntime) (PROVIDER_DOMAIN exampleRuntime)
           (s_url (sanitizeParams (decodeURIComponent exampleRuntime) (Some ?q)))
          = Inr (Authorized (simpleURL ''https:'' ''mybusiness.com'' ''/video/123'')
                  ''mybusiness.com'' ''/video/123'')"
      by (simp add: example_sanitized example_runtime example_authorized)
    show "getContentMetadata exampleRuntime
           (s_url (sanitizeParams (decodeURIComponent exampleRuntime) (Some ?q)))
           (s_maxwidth (sanitizeParams (decodeURIComponent exampleRuntime) (Some ?q)))
           (s_maxheight (sanitizeParams (decodeURIComponent exampleRuntime) (Some ?q)))
          = Inr testVideo"
      by (simp add: example_sanitized example_runtime exampleBackend_def)
    show "createTypeSpecificResponse (newURL exampleRuntime) (PROVIDER_NAME exampleRuntime)
           (PROVIDER_URL exampleRuntime) testVideo
           (s_maxwidth (sanitizeParams (decodeURIComponent exampleRuntime) (Some ?q)))
           (s_maxheight (sanitizeParams (decodeURIComponent exampleRuntime) (Some ?q)))
          = Inr r"
      by (simp add: example_sanitized example_runtime r)
  qed
  then have "map_option statusCode
        (handler exampleRuntime
          (request (Some ''https://mybusiness.com/video/123'') (Some []) None None))
       = Some 200"
    by (simp add: request_def statusCode_formatResponse)
  then show ?thesis
    using v by (simp add: VALID_FORMATS_def)
qed

lemma digit_not_space_or_sign:
  "isDigit c \<Longrightarrow> \<not> StrWhiteSpaceChar c \<and> c \<noteq> CHR ''-'' \<and> c \<noteq> CHR ''+''"
  by (auto simp: isDigit_def StrWhiteSpaceChar_def)

lemma parseInt_digits:
  assumes "v \<noteq> []" and "list_all isDigit v"
  shows "parseInt v = Some (int (digitsValue v))"
proof -
  obtain c cs where v: "v = c # cs" using assms(1) by (cases v) auto
  have c: "isDigit c" using assms(2) v by simp
  have d: "dropWhile StrWhiteSpaceChar v = v"
    using digit_not_space_or_sign[OF c] v by simp
  have t: "takeWhile isDigit v = v"
    using assms(2) by (simp add: takeWhile_eq_all_conv list_all_iff)
  have t': "takeWhile isDigit cs = cs"
    using t c by (simp add: v)
  show ?thesis
    unfolding parseInt_def d Let_def
    using digit_not_space_or_sign[OF c] c by (simp add: v t')
qed

lemma parseInt_no_number:
  assumes "\<not> StrWhiteSpaceChar c" and "c \<noteq> CHR ''-''" and "c \<noteq> CHR ''+''" and "\<not> isDigit c"
  shows "parseInt (c # cs) = None"
  using assms by (simp add: parseInt_def)

lemma filter_code_errors:
  "filter (\<lambda>e. code e = INVALID_MAXWIDTH) (errors (validateOembedParams (Some q)))
     = maxwidthErrors q"
  "filter (\<lambda>e. code e = INVALID_MAXHEIGHT) (errors (validateOembedParams (Some q)))
     = maxheightErrors q"
  by (simp_all add: validate_parts(1) phase_errors split: option.splits)

text \<open>
  Claim C2, as the code has it. When \<open>maxwidth\<close> (respectively \<open>maxheight\<close>) is
  present, \<open>validateOembedParams\<close> reports exactly one error with code
  \<open>INVALID_MAXWIDTH\<close> (respectively \<open>INVALID_MAXHEIGHT\<close>), always the same record, when
  \<open>parseInt\<close> finds no number at the start of the value or the number found is below 1
  or above 2048, and none otherwise. So a string of digits is rejected exactly when its
  number is outside 1 to 2048, and the empty string and a value that starts with any
  other character than white space, a sign or a digit are rejected; but what follows the
  leading digits is ignored. Both codes map to status 400, which is the status of the
  response when the error is the first of the list (the \<open>url\<close> is non-empty and the
  format valid; for \<open>maxheight\<close>, \<open>maxwidth\<close> is absent or accepted).
\<close>

theorem dimension_rejected_by_parseInt:
  "(q_maxwidth q = Some v \<longrightarrow>
      filter (\<lambda>e. code e = INVALID_MAXWIDTH) (errors (validateOembedParams (Some q)))
        = (if rejectedDimension v
           then [\<lparr>field = ''maxwidth'',
                   message = Str ''Maxwidth must be a number between 1 and 2048'',
                   code = INVALID_MAXWIDTH\<rparr>]
           else []))
   \<and> (q_maxheight q = Some v \<longrightarrow>
      filter (\<lambda>e. code e = INVALID_MAXHEIGHT) (errors (validateOembedParams (Some q)))
        = (if rejectedDimension v
           then [\<lparr>field = ''maxheight'',
                   message = Str ''Maxheight must be a number between 1 and 2048'',
                   code = INVALID_MAXHEIGHT\<rparr>]
           else []))
   \<and> statusFor INVALID_MAXWIDTH = 400 \<and> statusFor INVALID_MAXHEIGHT = 400
   \<and> rejectedDimension v = (case parseInt v of None \<Rightarrow> True | Some n \<Rightarrow> n < 1 \<or> 2048 < n)
   \<and> (v \<noteq> [] \<and> list_all isDigit v \<longrightarrow>
      rejectedDimension v = (digitsValue v < 1 \<or> 2048 < digitsValue v))
   \<and> (\<not> StrWhiteSpaceChar c \<and> c \<noteq> CHR ''-'' \<and> c \<noteq> CHR ''+'' \<and> \<not> isDigit c \<longrightarrow>
      rejectedDimension (c # cs))
   \<and> rejectedDimension []
   \<and> (q_url q = Some u \<and> u \<noteq> []
       \<and> (str_or (q_format q) ''json'' = ''json'' \<or> str_or (q_format q) ''json'' = ''xml'')
       \<and> q_maxwidth q = Some v \<and> rejectedDimension v \<longrightarrow>
      handler rt \<lparr>queryStringParameters = Some q\<rparr>
        = Some (formatErrorResponse (timestamp rt) (requestId rt) 400
                  (Str ''Maxwidth must be a number between 1 and 2048'')
                  (str_or (q_format q) ''json'') (Str INVALID_MAXWIDTH) Null))
   \<and> (q_url q = Some u \<and> u \<noteq> []
       \<and> (str_or (q_format q) ''json'' = ''json'' \<or> str_or (q_format q) ''json'' = ''xml'')
       \<and> (q_maxwidth q = None \<or> (q_maxwidth q = Some w \<and> \<not> rejectedDimension w))
       \<and> q_maxheight q = Some v \<and> rejectedDimension v \<longrightarrow>
      handler rt \<lparr>queryStringParameters = Some q\<rparr>
        = Some (formatErrorResponse (timestamp rt) (requestId rt) 400
                  (Str ''Maxheight must be a number between 1 and 2048'')
                  (str_or (q_format q) ''json'') (Str INVALID_MAXHEIGHT) Null))"
proof (intro conjI impI)
  assume "q_maxwidth q = Some v"
  then show "filter (\<lambda>e. code e = INVALID_MAXWIDTH) (errors (validateOembedParams (Some q)))
        = (if rejectedDimension v
           then [\<lparr>field = ''maxwidth'',
                   message = Str ''Maxwidth must be a number between 1 and 2048'',
                   code = INVALID_MAXWIDTH\<rparr>]
           else [])"
    by (simp add: filter_code_errors phase_errors)
next
  assume "q_maxheight q = Some v"
  then show "filter (\<lambda>e. code e = INVALID_MAXHEIGHT) (errors (validateOembedParams (Some q)))
        = (if rejectedDimension v
           then [\<lparr>field = ''maxheight'',
                   message = Str ''Maxheight must be a number between 1 and 2048'',
                   code = INVALID_MAXHEIGHT\<rparr>]
           else [])"
    by (simp add: filter_code_errors phase_errors)
next
  show "statusFor INVALID_MAXWIDTH = 400" "statusFor INVALID_MAXHEIGHT = 400"
    by (rule status_for)+
next
  show "rejectedDimension v = (case parseInt v of None \<Rightarrow> True | Some n \<Rightarrow> n < 1 \<or> 2048 < n)"
    by (simp add: rejectedDimension_def)
next
  assume "v \<noteq> [] \<and> list_all isDigit v"
  then show "rejectedDimension v = (digitsValue v < 1 \<or> 2048 < digitsValue v)"
    by (auto simp: rejectedDimension_def parseInt_digits)
next
  assume "\<not> StrWhiteSpaceChar c \<and> c \<noteq> CHR ''-'' \<and> c \<noteq> CHR ''+'' \<and> \<not> isDigit c"
  then show "rejectedDimension (c # cs)"
    by (simp add: rejectedDimension_def parseInt_no_number)
next
  show "rejectedDimension []"
    by (simp add: rejectedDimension_def parseInt_def)
next
  assume a: "q_url q = Some u \<and> u \<noteq> []
       \<and> (str_or (q_format q) ''json'' = ''json'' \<or> str_or (q_format q) ''json'' = ''xml'')
       \<and> q_maxwidth q = Some v \<and> rejectedDimension v"
  then have "\<exists>es. errors (validateOembedParams (Some q))
      = \<lparr>field = ''maxwidth'', message = Str ''Maxwidth must be a number between 1 and 2048'',
          code = INVALID_MAXWIDTH\<rparr> # es"
    by (auto simp: validate_parts(1) phase_errors str_or_def)
  then obtain es' where "errors (validateOembedParams (Some q))
      = \<lparr>field = ''maxwidth'', message = Str ''Maxwidth must be a number between 1 and 2048'',
          code = INVALID_MAXWIDTH\<rparr> # es'"
    by blast
  from handler_first_error[OF this, of rt]
  show "handler rt \<lparr>queryStringParameters = Some q\<rparr>
        = Some (formatErrorResponse (timestamp rt) (requestId rt) 400
                  (Str ''Maxwidth must be a number between 1 and 2048'')
                  (str_or (q_format q) ''json'') (Str INVALID_MAXWIDTH) Null)"
    by (simp add: status_for)
next
  assume a: "q_url q = Some u \<and> u \<noteq> []
       \<and> (str_or (q_format q) ''json'' = ''json'' \<or> str_or (q_format q) ''json'' = ''xml'')
       \<and> (q_maxwidth q = None \<or> (q_maxwidth q = Some w \<and> \<not> rejectedDimension w))
       \<and> q_maxheight q = Some v \<and> rejectedDimension v"
  then have "errors (validateOembedParams (Some q))
      = [\<lparr>field = ''maxheight'', message = Str ''Maxheight must be a number between 1 and 2048'',
          code = INVALID_MAXHEIGHT\<rparr>]"
    by (auto simp: validate_parts(1) phase_errors str_or_def)
  from handler_first_error[OF this, of rt]
  show "handler rt \<lparr>queryStringParameters = Some q\<rparr>
        = Some (formatErrorResponse (timestamp rt) (requestId rt) 400
                  (Str ''Maxheight must be a number between 1 and 2048'')
                  (str_or (q_format q) ''json'') (Str INVALID_MAXHEIGHT) Null)"
    by (simp add: status_for)
qed


theorem dimension_rejected_by_parseInt_witness:
  "filter (\<lambda>e. code e = INVALID_MAXWIDTH)
     (errors (validateOembedParams
        (Some \<lparr>q_url = Some ''https://mybusiness.com/video/123'', q_format = None,
               q_maxwidth = Some ''invalid'', q_maxheight = Some ''3000''\<rparr>)))
     = [\<lparr>field = ''maxwidth'', message = Str ''Maxwidth must be a number between 1 and 2048'',
         code = INVALID_MAXWIDTH\<rparr>]
   \<and> filter (\<lambda>e. code e = INVALID_MAXHEIGHT)
     (errors (validateOembedParams
        (Some \<lparr>q_url = Some ''https://mybusiness.com/video/123'', q_format = None,
               q_maxwidth = Some ''invalid'', q_maxheight = Some ''3000''\<rparr>)))
     = [\<lparr>field = ''maxheight'', message = Str ''Maxheight must be a number between 1 and 2048'',
         code = INVALID_MAXHEIGHT\<rparr>]
   \<and> rejectedDimension ''3000'' \<and> rejectedDimension ''invalid''
   \<and> handler exampleRuntime
        (request (Some ''https://mybusiness.com/video/123'') None (Some ''invalid'')
           (Some ''3000''))
       = Some (formatErrorResponse (timestamp exampleRuntime) (requestId exampleRuntime) 400
                 (Str ''Maxwidth must be a number between 1 and 2048'') ''json''
                 (Str INVALID_MAXWIDTH) Null)
   \<and> handler exampleRuntime
        (request (Some ''https://mybusiness.com/video/123'') None (Some ''800'') (Some ''3000''))
       = Some (formatErrorResponse (timestamp exampleRuntime) (requestId exampleRuntime) 400
                 (Str ''Maxheight must be a number between 1 and 2048'') ''json''
                 (Str INVALID_MAXHEIGHT) Null)"
proof -
  let ?qa = "\<lparr>q_url = Some ''https://mybusiness.com/video/123'', q_format = None,
               q_maxwidth = Some ''invalid'', q_maxheight = Some ''3000''\<rparr>"
  let ?qb = "\<lparr>q_url = Some ''https://mybusiness.com/video/123'', q_format = None,
               q_maxwidth = Some ''800'', q_maxheight = Some ''3000''\<rparr>"
  note T = dimension_rejected_by_parseInt
  have d3: "''3000'' \<noteq> [] \<and> list_all isDigit ''3000''"
    by (simp add: isDigit_def)
  have v3: "digitsValue ''3000'' = 3000"
    by (simp add: digitsValue_def)
  have ci: "\<not> StrWhiteSpaceChar CHR ''i'' \<and> CHR ''i'' \<noteq> CHR ''-'' \<and> CHR ''i'' \<noteq> CHR ''+''
            \<and> \<not> isDigit CHR ''i''"
    by (simp add: isDigit_def StrWhiteSpaceChar_def)
  have r3: "rejectedDimension ''3000''"
    using T[where q = ?qa and v = "''3000''" and c = "CHR ''i''" and cs = "[]" and u = "[]"
        and w = "[]" and rt = exampleRuntime,
        THEN conjunct2, THEN conjunct2, THEN conjunct2, THEN conjunct2, THEN conjunct2,
        THEN conjunct1, THEN mp, OF d3]
    by (simp add: v3)
  have ri: "rejectedDimension ''invalid''"
    using T[where q = ?qa and v = "''3000''" and c = "CHR ''i''" and cs = "''nvalid''"
        and u = "[]" and w = "[]" and rt = exampleRuntime,
        THEN conjunct2, THEN conjunct2, THEN conjunct2, THEN conjunct2, THEN conjunct2,
        THEN conjunct2, THEN conjunct1, THEN mp, OF ci]
    by simp
  have r8: "\<not> rejectedDimension ''800''"
    by (simp add: rejectedDimension_def parseInt_examples)
  have a: "filter (\<lambda>e. code e = INVALID_MAXWIDTH) (errors (validateOembedParams (Some ?qa)))
     = [\<lparr>field = ''maxwidth'', message = Str ''Maxwidth must be a number between 1 and 2048'',
         code = INVALID_MAXWIDTH\<rparr>]"
    using T[where q = ?qa and v = "''invalid''" and c = "CHR ''i''" and cs = "[]" and u = "[]"
        and w = "[]" and rt = exampleRuntime, THEN conjunct1, THEN mp] ri
    by simp
  have b: "filter (\<lambda>e. code e = INVALID_MAXHEIGHT) (errors (validateOembedParams (Some ?qa)))
     = [\<lparr>field = ''maxheight'', message = Str ''Maxheight must be a number between 1 and 2048'',
         code = INVALID_MAXHEIGHT\<rparr>]"
    using T[where q = ?qa and v = "''3000''" and c = "CHR ''i''" and cs = "[]" and u = "[]"
        and w = "[]" and rt = exampleRuntime, THEN conjunct2, THEN conjunct1, THEN mp] r3
    by simp
  have ha: "q_url ?qa = Some ''https://mybusiness.com/video/123''
       \<and> ''https://mybusiness.com/video/123'' \<noteq> []
       \<and> (str_or (q_format ?qa) ''json'' = ''json'' \<or> str_or (q_format ?qa) ''json'' = ''xml'')
       \<and> q_maxwidth ?qa = Some ''invalid'' \<and> rejectedDimension ''invalid''"
    using ri by (simp add: str_or_def)
  have hb: "q_url ?qb = Some ''https://mybusiness.com/video/123''
       \<and> ''https://mybusiness.com/video/123'' \<noteq> []
       \<and> (str_or (q_format ?qb) ''json'' = ''json'' \<or> str_or (q_format ?qb) ''json'' = ''xml'')
       \<and> (q_maxwidth ?qb = None \<or> (q_maxwidth ?qb = Some ''800'' \<and> \<not> rejectedDimension ''800''))
       \<and> q_maxheight ?qb = Some ''3000'' \<and> rejectedDimension ''3000''"
    using r3 r8 by (simp add: str_or_def)
  have c: "handler exampleRuntime \<lparr>queryStringParameters = Some ?qa\<rparr>
       = Some (formatErrorResponse (timestamp exampleRuntime) (requestId exampleRuntime) 400
                 (Str ''Maxwidth must be a number between 1 and 2048'')
                 (str_or (q_format ?qa) ''json'') (Str INVALID_MAXWIDTH) Null)"
    by (rule T[where q = ?qa and v = "''invalid''" and c = "CHR ''i''" and cs = "[]"
        and u = "''https://mybusiness.com/video/123''" and w = "[]" and rt = exampleRuntime,
        THEN conjunct2, THEN conjunct2, THEN conjunct2, THEN conjunct2, THEN conjunct2,
        THEN conjunct2, THEN conjunct2, THEN conjunct2, THEN conjunct1, THEN mp, OF ha])
  have d: "handler exampleRuntime \<lparr>queryStringParameters = Some ?qb\<rparr>
       = Some (formatErrorResponse (timestamp exampleRuntime) (requestId exampleRuntime) 400
                 (Str ''Maxheight must be a number between 1 and 2048'')
                 (str_or (q_format ?qb) ''json'') (Str INVALID_MAXHEIGHT) Null)"
    by (rule T[where q = ?qb and v = "''3000''" and c = "CHR ''i''" and cs = "[]"
        and u = "''https://mybusiness.com/video/123''" and w = "''800''"
        and rt = exampleRuntime,
        THEN conjunct2, THEN conjunct2, THEN conjunct2, THEN conjunct2, THEN conjunct2,
        THEN conjunct2, THEN conjunct2, THEN conjunct2, THEN conjunct2, THEN mp, OF hb])
  show ?thesis
    using a b r3 ri c d by (simp add: request_def str_or_def)
qed

text \<open>
  Claim C2 as stated fails for a value that is not an integer: \<open>maxwidth=1.5\<close> is read
  by \<open>parseInt\<close> as 1, no error is reported and the request succeeds with status 200.
\<close>

theorem fractional_maxwidth_counterexample:
  "parseInt ''1.5'' = Some 1
   \<and> errors (validateOembedParams
        (Some \<lparr>q_url = Some ''https://mybusiness.com/video/123'', q_format = None,
               q_maxwidth = Some ''1.5'', q_maxheight = None\<rparr>)) = []
   \<and> map_option statusCode
        (handler exampleRuntime
          (request (Some ''https://mybusiness.com/video/123'') None (Some ''1.5'') None))
       = Some 200"
proof -
  let ?q = "\<lparr>q_url = Some ''https://mybusiness.com/video/123'', q_format = None,
               q_maxwidth = Some ''1.5'', q_maxheight = None\<rparr>"
  have n: "\<not> rejectedDimension ''1.5''"
    by (simp add: rejectedDimension_def parseInt_examples)
  have v: "errors (validateOembedParams (Some ?q)) = []"
    by (simp add: validate_parts(1) phase_errors str_or_def n)
  have g: "getp testVideo ''embedUrl'' = Str ''https://mybusiness.com/embed/123''"
    "getp testVideo ''type'' = Str ''video''"
    "getp testVideo ''width'' = Undefined" "getp testVideo ''height'' = Undefined"
    by (simp_all add: getp_def testVideo_def)
  obtain r where r: "createTypeSpecificResponse exampleURL (Some ''Example Provider'')
      (Some ''https://mybusiness.com'') testVideo (Num 1) Undefined = Inr r"
    using video_response_exists[of testVideo exampleURL "Some ''Example Provider''"
        "Some ''https://mybusiness.com''" "Num 1" Undefined]
    by (simp add: g) blast
  have "handler exampleRuntime \<lparr>queryStringParameters = Some ?q\<rparr>
      = Some (formatResponse r (s_format (sanitizeParams (decodeURIComponent exampleRuntime)
                (Some ?q))))"
  proof (rule handler_success[OF v])
    show "validateAndAuthorizeUrl (newURL exampleRuntime) (PROVIDER_DOMAIN exampleRuntime)
           (s_url (sanitizeParams (decodeURIComponent exampleRuntime) (Some ?q)))
          = Inr (Authorized (simpleURL ''https:'' ''mybusiness.com'' ''/video/123'')
                  ''mybusiness.com'' ''/video/123'')"
      by (simp add: example_sanitized example_runtime example_authorized)
    show "getContentMetadata exampleRuntime
           (s_url (sanitizeParams (decodeURIComponent exampleRuntime) (Some ?q)))
           (s_maxwidth (sanitizeParams (decodeURIComponent exampleRuntime) (Some ?q)))
           (s_maxheight (sanitizeParams (decodeURIComponent exampleRuntime) (Some ?q)))
          = Inr testVideo"
      by (simp add: example_sanitized example_runtime exampleBackend_def)
    show "createTypeSpecificResponse (newURL exampleRuntime) (PROVIDER_NAME exampleRuntime)
           (PROVIDER_URL exampleRuntime) testVideo
           (s_maxwidth (sanitizeParams (decodeURIComponent exampleRuntime) (Some ?q)))
           (s_maxheight (sanitizeParams (decodeURIComponent exampleRuntime) (Some ?q)))
          = Inr r"
      by (simp add: example_sanitized example_runtime parsedOrNull_def parseInt_examples r)
  qed
  then have "map_option statusCode
        (handler exampleRuntime
          (request (Some ''https://mybusiness.com/video/123'') None (Some ''1.5'') None))
       = Some 200"
    by (simp add: request_def statusCode_formatResponse)
  then show ?thesis
    using v by (simp add: parseInt_examples)
qed


text \<open>
  Claim C8. For metadata of type \<open>photo\<close> without a (truthy) \<open>url\<close>, construction
  fails with the error "Photo type requires url field"; for metadata of type \<open>video\<close>
  with neither \<open>html\<close> nor \<open>embedUrl\<close>, it fails with "Video type requires embedUrl
  or html field". When the request is valid and authorized and the backend returns such
  metadata, the handler catches the failure and answers with status 500 and code
  \<open>INTERNAL_ERROR\<close>.
\<close>

theorem missing_required_field_is_internal_error:
  "(getp metadata ''type'' = Str ''photo'' \<and> \<not> truthy (getp metadata ''url'')
      \<longrightarrow> createTypeSpecificResponse parse providerName providerUrl metadata maxwidth maxheight
          = Inl (Error ''Photo type requires url field''))
   \<and> (getp metadata ''type'' = Str ''video'' \<and> \<not> truthy (getp metadata ''html'')
       \<and> \<not> truthy (getp metadata ''embedUrl'')
      \<longrightarrow> createTypeSpecificResponse parse providerName providerUrl metadata maxwidth maxheight
          = Inl (Error ''Video type requires embedUrl or html field''))
   \<and> (errors (validateOembedParams (Some q)) = []
       \<and> validateAndAuthorizeUrl (newURL rt) (PROVIDER_DOMAIN rt)
            (s_url (sanitizeParams (decodeURIComponent rt) (Some q)))
           = Inr (Authorized urlObj hn pn)
       \<and> getContentMetadata rt (s_url (sanitizeParams (decodeURIComponent rt) (Some q)))
            (s_maxwidth (sanitizeParams (decodeURIComponent rt) (Some q)))
            (s_maxheight (sanitizeParams (decodeURIComponent rt) (Some q))) = Inr metadata
       \<and> (getp metadata ''type'' = Str ''photo'' \<and> \<not> truthy (getp metadata ''url'')
          \<or> getp metadata ''type'' = Str ''video'' \<and> \<not> truthy (getp metadata ''html'')
             \<and> \<not> truthy (getp metadata ''embedUrl''))
      \<longrightarrow> handler rt \<lparr>queryStringParameters = Some q\<rparr>
          = Some (formatErrorResponse (timestamp rt) (requestId rt) 500
                    (Str ''Internal server error'') (str_or (q_format q) ''json'')
                    (Str INTERNAL_ERROR) Null)
        \<and> map_option statusCode (handler rt \<lparr>queryStringParameters = Some q\<rparr>) = Some 500)"
proof -
  have photo: "createTypeSpecificResponse p a b md mw mh
          = Inl (Error ''Photo type requires url field'')"
    if "getp md ''type'' = Str ''photo'' \<and> \<not> truthy (getp md ''url'')" for p a b md mw mh
    using that
    by (simp add: createTypeSpecificResponse_def createPhotoResponse_def js_or_def Let_def)
  have video: "createTypeSpecificResponse p a b md mw mh
          = Inl (Error ''Video type requires embedUrl or html field'')"
    if "getp md ''type'' = Str ''video'' \<and> \<not> truthy (getp md ''html'')
       \<and> \<not> truthy (getp md ''embedUrl'')" for p a b md mw mh
    using that
    by (simp add: createTypeSpecificResponse_def createVideoResponse_def js_or_def Let_def)
  have h: "handler rt \<lparr>queryStringParameters = Some q\<rparr>
          = Some (formatErrorResponse (timestamp rt) (requestId rt) 500
                    (Str ''Internal server error'') (str_or (q_format q) ''json'')
                    (Str INTERNAL_ERROR) Null)"
    if a: "errors (validateOembedParams (Some q)) = []
       \<and> validateAndAuthorizeUrl (newURL rt) (PROVIDER_DOMAIN rt)
            (s_url (sanitizeParams (decodeURIComponent rt) (Some q)))
           = Inr (Authorized urlObj hn pn)
       \<and> getContentMetadata rt (s_url (sanitizeParams (decodeURIComponent rt) (Some q)))
            (s_maxwidth (sanitizeParams (decodeURIComponent rt) (Some q)))
            (s_maxheight (sanitizeParams (decodeURIComponent rt) (Some q))) = Inr metadata
       \<and> (getp metadata ''type'' = Str ''photo'' \<and> \<not> truthy (getp metadata ''url'')
          \<or> getp metadata ''type'' = Str ''video'' \<and> \<not> truthy (getp metadata ''html'')
             \<and> \<not> truthy (getp metadata ''embedUrl''))"
  proof -
    from a have "\<exists>msg. createTypeSpecificResponse (newURL rt) (PROVIDER_NAME rt)
           (PROVIDER_URL rt) metadata
           (s_maxwidth (sanitizeParams (decodeURIComponent rt) (Some q)))
           (s_maxheight (sanitizeParams (decodeURIComponent rt) (Some q))) = Inl (Error msg)"
      using photo video by blast
    then obtain msg where "createTypeSpecificResponse (newURL rt) (PROVIDER_NAME rt)
           (PROVIDER_URL rt) metadata
           (s_maxwidth (sanitizeParams (decodeURIComponent rt) (Some q)))
           (s_maxheight (sanitizeParams (decodeURIComponent rt) (Some q))) = Inl (Error msg)"
      by blast
    with a show ?thesis
      using handler_construction_error[of q rt urlObj hn pn metadata msg] by blast
  qed
  show ?thesis
  proof (intro conjI impI)
    assume "getp metadata ''type'' = Str ''photo'' \<and> \<not> truthy (getp metadata ''url'')"
    then show "createTypeSpecificResponse parse providerName providerUrl metadata maxwidth
        maxheight = Inl (Error ''Photo type requires url field'')"
      by (rule photo)
  next
    assume "getp metadata ''type'' = Str ''video'' \<and> \<not> truthy (getp metadata ''html'')
       \<and> \<not> truthy (getp metadata ''embedUrl'')"
    then show "createTypeSpecificResponse parse providerName providerUrl metadata maxwidth
        maxheight = Inl (Error ''Video type requires embedUrl or html field'')"
      by (rule video)
  next
    assume a: "errors (validateOembedParams (Some q)) = []
       \<and> validateAndAuthorizeUrl (newURL rt) (PROVIDER_DOMAIN rt)
            (s_url (sanitizeParams (decodeURIComponent rt) (Some q)))
           = Inr (Authorized urlObj hn pn)
       \<and> getContentMetadata rt (s_url (sanitizeParams (decodeURIComponent rt) (Some q)))
            (s_maxwidth (sanitizeParams (decodeURIComponent rt) (Some q)))
            (s_maxheight (sanitizeParams (decodeURIComponent rt) (Some q))) = Inr metadata
       \<and> (getp metadata ''type'' = Str ''photo'' \<and> \<not> truthy (getp metadata ''url'')
          \<or> getp metadata ''type'' = Str ''video'' \<and> \<not> truthy (getp metadata ''html'')
             \<and> \<not> truthy (getp metadata ''embedUrl''))"
    show "handler rt \<lparr>queryStringParameters = Some q\<rparr>
          = Some (formatErrorResponse (timestamp rt) (requestId rt) 500
                    (Str ''Internal server error'') (str_or (q_format q) ''json'')
                    (Str INTERNAL_ERROR) Null)"
      by (rule h[OF a])
    show "map_option statusCode (handler rt \<lparr>queryStringParameters = Some q\<rparr>) = Some 500"
      by (simp only: h[OF a] option.map statusCode_formatErrorResponse)
  qed
qed

theorem missing_required_field_is_internal_error_witness:
  "createTypeSpecificResponse exampleURL None None [(''type'', Str ''photo'')] Undefined Undefined
     = Inl (Error ''Photo type requires url field'')
   \<and> createTypeSpecificResponse exampleURL None None [(''type'', Str ''video'')] Undefined
       Undefined = Inl (Error ''Video type requires embedUrl or html field'')
   \<and> handler exampleRuntime (request (Some ''https://mybusiness.com/photo/1'') None None None)
       = Some (formatErrorResponse (timestamp exampleRuntime) (requestId exampleRuntime) 500
                 (Str ''Internal server error'') ''json'' (Str INTERNAL_ERROR) Null)
   \<and> map_option statusCode
        (handler exampleRuntime (request (Some ''https://mybusiness.com/video/9'')
           (Some ''xml'') None None)) = Some 500"
proof -
  let ?qp = "\<lparr>q_url = Some ''https://mybusiness.com/photo/1'', q_format = None,
               q_maxwidth = None, q_maxheight = None\<rparr>"
  let ?qv = "\<lparr>q_url = Some ''https://mybusiness.com/video/9'', q_format = Some ''xml'',
               q_maxwidth = None, q_maxheight = None\<rparr>"
  let ?up = "simpleURL ''https:'' ''mybusiness.com'' ''/photo/1''"
  let ?uv = "simpleURL ''https:'' ''mybusiness.com'' ''/video/9''"
  note T = missing_required_field_is_internal_error
  have gp: "getp [(''type'', Str ''photo'')] ''type'' = Str ''photo''
            \<and> \<not> truthy (getp [(''type'', Str ''photo'')] ''url'')"
    by (simp add: getp_def)
  have gv: "getp [(''type'', Str ''video'')] ''type'' = Str ''video''
            \<and> \<not> truthy (getp [(''type'', Str ''video'')] ''html'')
            \<and> \<not> truthy (getp [(''type'', Str ''video'')] ''embedUrl'')"
    by (simp add: getp_def)
  have hp: "errors (validateOembedParams (Some ?qp)) = []
       \<and> validateAndAuthorizeUrl (newURL exampleRuntime) (PROVIDER_DOMAIN exampleRuntime)
            (s_url (sanitizeParams (decodeURIComponent exampleRuntime) (Some ?qp)))
           = Inr (Authorized ?up ''mybusiness.com'' ''/photo/1'')
       \<and> getContentMetadata exampleRuntime
            (s_url (sanitizeParams (decodeURIComponent exampleRuntime) (Some ?qp)))
            (s_maxwidth (sanitizeParams (decodeURIComponent exampleRuntime) (Some ?qp)))
            (s_maxheight (sanitizeParams (decodeURIComponent exampleRuntime) (Some ?qp)))
           = Inr [(''type'', Str ''photo'')]
       \<and> (getp [(''type'', Str ''photo'')] ''type'' = Str ''photo''
            \<and> \<not> truthy (getp [(''type'', Str ''photo'')] ''url'')
          \<or> getp [(''type'', Str ''photo'')] ''type'' = Str ''video''
            \<and> \<not> truthy (getp [(''type'', Str ''photo'')] ''html'')
            \<and> \<not> truthy (getp [(''type'', Str ''photo'')] ''embedUrl''))"
    using gp
    by (simp add: validate_parts(1) phase_errors str_or_def example_sanitized example_runtime
        example_authorized exampleBackend_def)
  have hv: "errors (validateOembedParams (Some ?qv)) = []
       \<and> validateAndAuthorizeUrl (newURL exampleRuntime) (PROVIDER_DOMAIN exampleRuntime)
            (s_url (sanitizeParams (decodeURIComponent exampleRuntime) (Some ?qv)))
           = Inr (Authorized ?uv ''mybusiness.com'' ''/video/9'')
       \<and> getContentMetadata exampleRuntime
            (s_url (sanitizeParams (decodeURIComponent exampleRuntime) (Some ?qv)))
            (s_maxwidth (sanitizeParams (decodeURIComponent exampleRuntime) (Some ?qv)))
            (s_maxheight (sanitizeParams (decodeURIComponent exampleRuntime) (Some ?qv)))
           = Inr [(''type'', Str ''video'')]
       \<and> (getp [(''type'', Str ''video'')] ''type'' = Str ''photo''
            \<and> \<not> truthy (getp [(''type'', Str ''video'')] ''url'')
          \<or> getp [(''type'', Str ''video'')] ''type'' = Str ''video''
            \<and> \<not> truthy (getp [(''type'', Str ''video'')] ''html'')
            \<and> \<not> truthy (getp [(''type'', Str ''video'')] ''embedUrl''))"
    using gv
    by (simp add: validate_parts(1) phase_errors str_or_def example_sanitized example_runtime
        example_authorized exampleBackend_def)
  have a: "createTypeSpecificResponse exampleURL None None [(''type'', Str ''photo'')]
      Undefined Undefined = Inl (Error ''Photo type requires url field'')"
    by (rule T[where metadata = "[(''type'', Str ''photo'')]" and parse = exampleURL
        and providerName = None and providerUrl = None and maxwidth = Undefined
        and maxheight = Undefined and q = ?qp and rt = exampleRuntime and urlObj = ?up
        and hn = "[]" and pn = "[]", THEN conjunct1, THEN mp, OF gp])
  have b: "createTypeSpecificResponse exampleURL None None [(''type'', Str ''video'')]
      Undefined Undefined = Inl (Error ''Video type requires embedUrl or html field'')"
    by (rule T[where metadata = "[(''type'', Str ''video'')]" and parse = exampleURL
        and providerName = None and providerUrl = None and maxwidth = Undefined
        and maxheight = Undefined and q = ?qp and rt = exampleRuntime and urlObj = ?up
        and hn = "[]" and pn = "[]", THEN conjunct2, THEN conjunct1, THEN mp, OF gv])
  note c = T[where metadata = "[(''type'', Str ''photo'')]" and parse = exampleURL
        and providerName = None and providerUrl = None and maxwidth = Undefined
        and maxheight = Undefined and q = ?qp and rt = exampleRuntime and urlObj = ?up
        and hn = "''mybusiness.com''" and pn = "''/photo/1''",
        THEN conjunct2, THEN conjunct2, THEN mp, OF hp, THEN conjunct1]
  note d = T[where metadata = "[(''type'', Str ''video'')]" and parse = exampleURL
        and providerName = None and providerUrl = None and maxwidth = Undefined
        and maxheight = Undefined and q = ?qv and rt = exampleRuntime and urlObj = ?uv
        and hn = "''mybusiness.com''" and pn = "''/video/9''",
        THEN conjunct2, THEN conjunct2, THEN mp, OF hv, THEN conjunct2]
  show ?thesis
    using a b c d by (simp add: request_def str_or_def)
qed

end
